theory Spec2Isabelle
  imports Complex_Main "HOL-Library.Sublist" "HOL-Library.Multiset"
begin

section \<open>Strings\<close>

text \<open>
  JavaScript strings are modelled as \<open>string\<close> (lists of 8-bit characters). Text outside
  ASCII is represented by the bytes of its UTF-8 encoding. Case mapping and whitespace are
  those of ASCII: \<open>toLowerCase\<close> maps \<open>A\<close>..\<open>Z\<close> and leaves every other character
  alone, and the whitespace of \<open>trim\<close> and of the regular expression \<open>\s\<close> is tab,
  line feed, vertical tab, form feed, carriage return and space.
\<close>

definition isSpace :: "char \<Rightarrow> bool" where
  "isSpace c = (of_char c \<in> {9, 10, 11, 12, 13, 32 :: nat})"

definition lowerChar :: "char \<Rightarrow> char" where
  "lowerChar c =
     (let n = (of_char c :: nat) in if 65 \<le> n \<and> n \<le> 90 then char_of (n + 32) else c)"

definition toLowerCase :: "string \<Rightarrow> string" where
  "toLowerCase s = map lowerChar s"

definition trim :: "string \<Rightarrow> string" where
  "trim s = rev (dropWhile isSpace (rev (dropWhile isSpace s)))"

text \<open>\<open>s.includes(t)\<close>: \<open>t\<close> occurs in \<open>s\<close> as a contiguous substring.\<close>

definition includesStr :: "string \<Rightarrow> string \<Rightarrow> bool" where
  "includesStr s t = sublist t s"

text \<open>
  \<open>s.split(/\s+/)\<close>: the pieces of \<open>s\<close> between maximal runs of whitespace. A string
  that starts or ends with whitespace yields an empty first or last piece, and the empty
  string yields one empty piece. The first argument is the piece read so far.
\<close>

function splitWs :: "string \<Rightarrow> string \<Rightarrow> string list" where
  "splitWs cur [] = [cur]"
| "splitWs cur (c # cs) =
     (if isSpace c then cur # splitWs [] (dropWhile isSpace cs) else splitWs (cur @ [c]) cs)"
  by pat_completeness auto
termination
  by (relation "measure (\<lambda>(cur, s). length s)")
     (auto simp: length_dropWhile_le less_Suc_eq_le)

definition split_ws :: "string \<Rightarrow> string list" where
  "split_ws s = splitWs [] s"

section \<open>JSON values\<close>

text \<open>
  The chatbot response is whatever JSON the endpoint sent. Numbers are modelled by the
  exact rational value they denote; \<open>undefined\<close> is \<open>None\<close> of \<open>json option\<close>. An object
  is the list of its properties, looked up by key.
\<close>

datatype json =
    JNull
  | JBool bool
  | JNum rat
  | JStr string
  | JArr "json list"
  | JObj "(string \<times> json) list"

text \<open>The result of \<open>Number(v)\<close>: a number or \<open>NaN\<close>.\<close>

datatype jsnum = NaN | Num rat

fun truthy :: "json \<Rightarrow> bool" where
  "truthy JNull = False"
| "truthy (JBool b) = b"
| "truthy (JNum n) = (n \<noteq> 0)"
| "truthy (JStr s) = (s \<noteq> [])"
| "truthy (JArr xs) = True"
| "truthy (JObj kvs) = True"

fun truthyOpt :: "json option \<Rightarrow> bool" where
  "truthyOpt None = False"
| "truthyOpt (Some v) = truthy v"

text \<open>
  \<open>v.k\<close> for a value that is neither \<open>null\<close> nor \<open>undefined\<close>, and for the property
  names read here (\<open>output\<close>, \<open>memory\<close>, \<open>order\<close>, \<open>data\<close>, \<open>item\<close>, \<open>name\<close>,
  \<open>price\<close>, \<open>quantity\<close>, \<open>status\<close>, \<open>error\<close>): only an object can have them.
\<close>

fun getProp :: "json \<Rightarrow> string \<Rightarrow> json option" where
  "getProp (JObj kvs) k = map_of kvs k"
| "getProp v k = None"

text \<open>Optional chaining \<open>v?.k\<close>.\<close>

fun optChain :: "json option \<Rightarrow> string \<Rightarrow> json option" where
  "optChain None k = None"
| "optChain (Some JNull) k = None"
| "optChain (Some v) k = getProp v k"

fun isArray :: "json option \<Rightarrow> bool" where
  "isArray (Some (JArr xs)) = True"
| "isArray v = False"

fun arrayItems :: "json option \<Rightarrow> json list" where
  "arrayItems (Some (JArr xs)) = xs"
| "arrayItems v = []"

text \<open>\<open>a || b\<close> where \<open>a\<close> may be \<open>undefined\<close>.\<close>

definition orElse :: "json option \<Rightarrow> json \<Rightarrow> json" where
  "orElse a b = (case a of None \<Rightarrow> b | Some v \<Rightarrow> if truthy v then v else b)"

text \<open>
  \<open>Number(v)\<close>. On a number it is the identity. What ECMAScript's \<open>ToNumber\<close> makes of
  any other value (booleans, strings, arrays, objects) is the parameter \<open>coerce\<close>.
\<close>

fun toNumber :: "(json \<Rightarrow> jsnum) \<Rightarrow> json \<Rightarrow> jsnum" where
  "toNumber coerce (JNum n) = Num n"
| "toNumber coerce v = coerce v"

section \<open>Products, order items and the order extractor\<close>

text \<open>
  Modelled from the spec: the declaration of \<open>Product\<close> (\<open>types/types\<close>) is not among
  the sources. The fields are those of the spec's \<open>MenuItem\<close> (name, price, category,
  description) with the \<open>id\<close> and \<open>image\<close> that \<open>fetchProducts\<close> sets on every product.
\<close>

record product =
  p_id :: string
  p_name :: string
  p_description :: string
  p_price :: rat
  p_image :: string
  p_category :: string

record orderItem =
  oi_item :: string
  oi_price :: json
  oi_quantity :: jsnum

text \<open>The object literal built by the \<open>map\<close> of \<open>extractOrderFromMemory\<close>.\<close>

record rawOrderItem =
  r_item :: json
  r_price :: json
  r_quantity :: jsnum

text \<open>
  The callback of \<open>rawOrderItems.map\<close>. Reading a property of \<open>null\<close> throws a
  \<open>TypeError\<close>, the result \<open>None\<close>.
\<close>

definition normalizeItem :: "(json \<Rightarrow> jsnum) \<Rightarrow> json \<Rightarrow> rawOrderItem option" where
  "normalizeItem coerce it =
     (if it = JNull then None
      else Some \<lparr>
        r_item = orElse (getProp it ''item'') (orElse (getProp it ''name'') (JStr [])),
        r_price = orElse (getProp it ''price'') (JNum 0),
        r_quantity = (case getProp it ''quantity'' of
                        None \<Rightarrow> Num 1
                      | Some JNull \<Rightarrow> Num 1
                      | Some q \<Rightarrow> toNumber coerce q) \<rparr>)"

text \<open>
  The callback of \<open>.filter\<close>: \<open>item.item && item.item.trim() !== ''\<close>. A truthy value
  that is not a string has no method \<open>trim\<close>, and calling it throws a \<open>TypeError\<close>
  (\<open>None\<close>). A kept element is returned with its name typed as a string.
\<close>

definition keepItem :: "rawOrderItem \<Rightarrow> orderItem option option" where
  "keepItem r =
     (if \<not> truthy (r_item r) then Some None
      else case r_item r of
             JStr s \<Rightarrow>
               Some (if trim s \<noteq> []
                     then Some \<lparr>oi_item = s, oi_price = r_price r, oi_quantity = r_quantity r\<rparr>
                     else None)
           | _ \<Rightarrow> None)"

fun mapThrowing :: "('a \<Rightarrow> 'b option) \<Rightarrow> 'a list \<Rightarrow> 'b list option" where
  "mapThrowing f [] = Some []"
| "mapThrowing f (x # xs) =
     (case f x of
        None \<Rightarrow> None
      | Some y \<Rightarrow> (case mapThrowing f xs of None \<Rightarrow> None | Some ys \<Rightarrow> Some (y # ys)))"

fun filterThrowing :: "('a \<Rightarrow> 'b option option) \<Rightarrow> 'a list \<Rightarrow> 'b list option" where
  "filterThrowing f [] = Some []"
| "filterThrowing f (x # xs) =
     (case f x of
        None \<Rightarrow> None
      | Some k \<Rightarrow>
          (case filterThrowing f xs of
             None \<Rightarrow> None
           | Some ys \<Rightarrow> Some (case k of None \<Rightarrow> ys | Some y \<Rightarrow> y # ys)))"

definition orderAt :: "json option \<Rightarrow> string list \<Rightarrow> json option" where
  "orderAt responseData path = optChain (optChain (foldl optChain responseData path) ''memory'') ''order''"

definition rawOrderItems :: "json option \<Rightarrow> json list" where
  "rawOrderItems responseData =
     (if truthyOpt (orderAt responseData [''output'']) \<and> isArray (orderAt responseData [''output''])
      then arrayItems (orderAt responseData [''output''])
      else if truthyOpt (orderAt responseData []) \<and> isArray (orderAt responseData [])
      then arrayItems (orderAt responseData [])
      else if truthyOpt (orderAt responseData [''data'']) \<and> isArray (orderAt responseData [''data''])
      then arrayItems (orderAt responseData [''data''])
      else [])"

text \<open>
  \<open>extractOrderFromMemory\<close>: the whole body is inside \<open>try\<close>, and the \<open>catch\<close> returns
  the empty list.
\<close>

definition extractOrderFromMemory :: "(json \<Rightarrow> jsnum) \<Rightarrow> json option \<Rightarrow> orderItem list" where
  "extractOrderFromMemory coerce responseData =
     (case mapThrowing (normalizeItem coerce) (rawOrderItems responseData) of
        None \<Rightarrow> []
      | Some normalized \<Rightarrow>
          (case filterThrowing keepItem normalized of
             None \<Rightarrow> []
           | Some normalizedOrderItems \<Rightarrow> normalizedOrderItems))"

section \<open>Matching an order item to a product\<close>

definition exactMatch :: "string \<Rightarrow> product \<Rightarrow> bool" where
  "exactMatch itemName p = (toLowerCase (p_name p) = itemName)"

definition partialMatch :: "string \<Rightarrow> product \<Rightarrow> bool" where
  "partialMatch itemName p =
     (let productName = toLowerCase (p_name p)
      in includesStr productName itemName \<or> includesStr itemName productName)"

definition wordMatch :: "string \<Rightarrow> product \<Rightarrow> bool" where
  "wordMatch itemName p =
     (let itemWords = split_ws itemName;
          productWords = split_ws (toLowerCase (p_name p))
      in list_ex (\<lambda>word. list_ex (\<lambda>pWord. includesStr pWord word \<or> includesStr word pWord) productWords)
           itemWords)"

definition matchOrderItemToProduct :: "orderItem \<Rightarrow> product list \<Rightarrow> product option" where
  "matchOrderItemToProduct orderItem products =
     (let itemName = trim (toLowerCase (oi_item orderItem))
      in case find (exactMatch itemName) products of
           Some m \<Rightarrow> Some m
         | None \<Rightarrow>
             (case find (partialMatch itemName) products of
                Some m \<Rightarrow> Some m
              | None \<Rightarrow> find (wordMatch itemName) products))"

section \<open>Detecting the completion of an order\<close>

definition completionPhrases :: "string list" where
  "completionPhrases =
     [''that will be all'',
      ''that's all'',
      ''that is all'',
      ''all done'',
      ''i'm done'',
      ''finish order'',
      ''complete order'',
      ''place order'',
      ''checkout'',
      ''proceed to checkout'',
      ''confirm order'',
      ''finalize order'',
      ''submit order'',
      ''buy now'',
      ''order now'',
      ''yes place order'',
      ''yes checkout'',
      ''yes that's all'',
      ''yes that will be all'']"

definition isOrderCompletion :: "string \<Rightarrow> bool" where
  "isOrderCompletion message =
     (let lowerMessage = trim (toLowerCase message)
      in list_ex (\<lambda>phrase. includesStr lowerMessage phrase) completionPhrases)"

section \<open>The cart\<close>

text \<open>
  A quantity is a JavaScript number, modelled by its exact rational value; the sum of two
  quantities is their exact sum. The toasts that \<open>addToCart\<close> and \<open>removeFromCart\<close> show
  are not part of the cart and are left out, and with them the flag \<open>silent\<close>. Each
  operation is the function that the source hands to \<open>setCartItems\<close>.
\<close>

text \<open>
  Modelled from the spec: the declaration of \<open>CartItem\<close> (\<open>types/types\<close>) is not among
  the sources. A line has the two fields that \<open>addToCart\<close> writes, the product and its
  quantity.
\<close>

record cartItem =
  ci_product :: product
  ci_quantity :: rat

definition addToCart :: "product \<Rightarrow> rat \<Rightarrow> cartItem list \<Rightarrow> cartItem list" where
  "addToCart product quantity prevItems =
     (case find (\<lambda>item. p_id (ci_product item) = p_id product) prevItems of
        Some existingItem \<Rightarrow>
          (let newQuantity = ci_quantity existingItem + quantity
           in map (\<lambda>item. if p_id (ci_product item) = p_id product
                            then item\<lparr>ci_quantity := newQuantity\<rparr> else item) prevItems)
      | None \<Rightarrow> prevItems @ [\<lparr>ci_product = product, ci_quantity = quantity\<rparr>])"

definition removeFromCart :: "string \<Rightarrow> cartItem list \<Rightarrow> cartItem list" where
  "removeFromCart productId prevItems =
     filter (\<lambda>item. p_id (ci_product item) \<noteq> productId) prevItems"

definition updateQuantity :: "string \<Rightarrow> rat \<Rightarrow> cartItem list \<Rightarrow> cartItem list" where
  "updateQuantity productId quantity prevItems =
     (if quantity \<le> 0 then removeFromCart productId prevItems
      else map (\<lambda>item. if p_id (ci_product item) = productId
                       then item\<lparr>ci_quantity := quantity\<rparr> else item) prevItems)"

text \<open>The product ids of the lines of a cart, in order.\<close>

definition lineIds :: "cartItem list \<Rightarrow> string list" where
  "lineIds cart = map (\<lambda>item. p_id (ci_product item)) cart"

text \<open>The cart after a sequence of calls of \<open>addToCart\<close>, starting from the empty cart.\<close>

definition addAll :: "(product \<times> rat) list \<Rightarrow> cartItem list" where
  "addAll adds = foldl (\<lambda>cart (product, quantity). addToCart product quantity cart) [] adds"

section \<open>Processing the orders of the response memory\<close>

text \<open>
  The state that \<open>processOrdersFromMemory\<close> writes: the reference \<open>lastOrderHashRef\<close>, the
  set \<open>processedOrders\<close> and the cart. The hash is \<open>JSON.stringify\<close> of the normalised
  items and is read back with \<open>JSON.parse\<close>; it is modelled by the list it serialises,
  and the initial empty string by \<open>None\<close>. A key \<open>`${a}-${b}`\<close> of a set of strings is
  modelled by the pair \<open>(a, b)\<close>.
\<close>

record orderState =
  lastOrderHash :: "orderItem list option"
  processedOrders :: "(string \<times> rat) set"
  cartItems :: "cartItem list"

text \<open>The state of a freshly mounted chat: no hash, nothing processed, an empty cart.\<close>

definition initialOrderState :: orderState where
  "initialOrderState = \<lparr>lastOrderHash = None, processedOrders = {}, cartItems = []\<rparr>"

text \<open>\<open>q && q > 0 ? q : 1\<close>\<close>

fun validQuantity :: "jsnum \<Rightarrow> rat" where
  "validQuantity NaN = 1"
| "validQuantity (Num q) = (if q \<noteq> 0 \<and> q > 0 then q else 1)"

definition itemKey :: "orderItem \<Rightarrow> string \<times> rat" where
  "itemKey item = (toLowerCase (oi_item item), validQuantity (oi_quantity item))"

text \<open>
  The body of the loop over the new items. The tests read \<open>processedOrders\<close> and
  \<open>cartItems\<close> as the component's last render saw them (\<open>processedSeen\<close>, \<open>cartSeen\<close>);
  \<open>addToCart\<close> and \<open>setProcessedOrders\<close> update the state itself.
\<close>

definition processItem ::
  "product list \<Rightarrow> (string \<times> rat) set \<Rightarrow> cartItem list \<Rightarrow> orderState \<Rightarrow> orderItem \<Rightarrow> orderState" where
  "processItem products processedSeen cartSeen st orderItem =
     (let quantity = validQuantity (oi_quantity orderItem)
      in case matchOrderItemToProduct orderItem products of
           Some product \<Rightarrow>
             (let key = (p_id product, quantity);
                  isAlreadyInCart =
                    list_ex (\<lambda>item. p_id (ci_product item) = p_id product \<and> ci_quantity item \<ge> quantity)
                      cartSeen
              in if key \<notin> processedSeen \<and> \<not> isAlreadyInCart
                 then st\<lparr>cartItems := addToCart product quantity (cartItems st),
                         processedOrders := insert key (processedOrders st)\<rparr>
                 else st)
         | None \<Rightarrow> st)"

definition normalizedItems :: "orderItem list \<Rightarrow> orderItem list" where
  "normalizedItems orderItems =
     map (\<lambda>item. \<lparr>oi_item = oi_item item, oi_price = oi_price item,
                   oi_quantity = Num (validQuantity (oi_quantity item))\<rparr>) orderItems"

definition newItemsOf :: "orderItem list option \<Rightarrow> orderItem list \<Rightarrow> orderItem list" where
  "newItemsOf previousOrderHash orderItems =
     (let previousOrderItems = (case previousOrderHash of None \<Rightarrow> [] | Some items \<Rightarrow> items);
          previousItemsSet = set (map itemKey previousOrderItems)
      in filter (\<lambda>item. itemKey item \<notin> previousItemsSet) orderItems)"

definition processOrdersFromMemory ::
  "product list \<Rightarrow> (string \<times> rat) set \<Rightarrow> cartItem list \<Rightarrow> orderState \<Rightarrow> orderItem list \<Rightarrow> orderState" where
  "processOrdersFromMemory products processedSeen cartSeen st orderItems =
     (let orderHash = Some (normalizedItems orderItems)
      in if orderHash = lastOrderHash st then st
         else let newItems = newItemsOf (lastOrderHash st) orderItems
              in foldl (processItem products processedSeen cartSeen)
                   (st\<lparr>lastOrderHash := orderHash\<rparr>) newItems)"

text \<open>The ids of the products that the matcher selects for the items of an order list.\<close>

definition matchedIds :: "product list \<Rightarrow> orderItem list \<Rightarrow> string set" where
  "matchedIds products orderItems =
     {p_id m | m orderItem. orderItem \<in> set orderItems \<and>
        matchOrderItemToProduct orderItem products = Some m}"

section \<open>Replies generated by the chat room\<close>

text \<open>
  Characters outside ASCII that the reply templates use, as the bytes of their UTF-8
  encoding, and the line feed.
\<close>

definition fire :: string where
  "fire = [CHR 0xF0, CHR 0x9F, CHR 0x94, CHR 0xA5]"

definition star :: string where
  "star = [CHR 0xE2, CHR 0xAD, CHR 0x90]"

definition moneyBag :: string where
  "moneyBag = [CHR 0xF0, CHR 0x9F, CHR 0x92, CHR 0xB0]"

definition arrow :: string where
  "arrow = [CHR 0xE2, CHR 0x86, CHR 0x92]"

definition emDash :: string where
  "emDash = [CHR 0xE2, CHR 0x80, CHR 0x94]"

definition checkBox :: string where
  "checkBox = [CHR 0xE2, CHR 0x9C, CHR 0x85]"

definition checkMark :: string where
  "checkMark = [CHR 0xE2, CHR 0x9C, CHR 0x93]"

definition bullet :: string where
  "bullet = [CHR 0xE2, CHR 0x80, CHR 0xA2]"

definition nl :: string where
  "nl = [CHR 0x0A]"

text \<open>
  \<open>xs[Math.floor(Math.random() * xs.length)]\<close>. The draw is an input: a natural number
  \<open>r\<close> selects the element of index \<open>r mod xs.length\<close>, so every element can be selected.
\<close>

definition pick :: "nat \<Rightarrow> 'a list \<Rightarrow> 'a" where
  "pick r xs = xs ! (r mod length xs)"

text \<open>\<open>xs.join(sep)\<close>\<close>

fun joinWith :: "string \<Rightarrow> string list \<Rightarrow> string" where
  "joinWith sep [] = []"
| "joinWith sep [x] = x"
| "joinWith sep (x # y # ys) = x @ sep @ joinWith sep (y # ys)"

text \<open>The decimal digits of a natural number, as template interpolation writes an index.\<close>

function natStr :: "nat \<Rightarrow> string" where
  "natStr n = (if n < 10 then [char_of (48 + n)] else natStr (n div 10) @ [char_of (48 + n mod 10)])"
  by pat_completeness auto
termination
  by (relation "measure id") auto

declare natStr.simps [simp del]

definition isRecommendationQuery :: "string \<Rightarrow> bool" where
  "isRecommendationQuery message =
     (let lowerMessage = toLowerCase message
      in list_ex (\<lambda>keyword. includesStr lowerMessage keyword)
           [''recommend'',
            ''popular'',
            ''best'',
            ''favorite'',
            ''suggest'',
            ''what do you have'',
            ''what's available'',
            ''what can i get''])"

definition isPriceQuery :: "string \<Rightarrow> bool" where
  "isPriceQuery message =
     (let lowerMessage = toLowerCase message
      in list_ex (\<lambda>keyword. includesStr lowerMessage keyword)
           [''price'',
            ''cost'',
            ''how much'',
            ''what does'',
            ''what's the price'',
            ''how much does'',
            ''how much is''])"

definition extractProductNameFromQuery :: "string \<Rightarrow> product list \<Rightarrow> product option" where
  "extractProductNameFromQuery message products =
     (let lowerMessage = toLowerCase message
      in find (\<lambda>product. includesStr lowerMessage (toLowerCase (p_name product))) products)"

text \<open>
  The recommended items: the products sorted by descending price, equal prices keeping
  their order (\<open>Array.prototype.sort\<close> is stable), cut to the first five.
\<close>

definition popularItemsOf :: "product list \<Rightarrow> product list" where
  "popularItemsOf products = take 5 (sort_key (\<lambda>p. - p_price p) products)"

text \<open>
  The five renderings of the item list. \<open>toFixed2\<close> stands for
  \<open>Number.prototype.toFixed(2)\<close>, which is the runtime's.
\<close>

definition format1Of :: "(rat \<Rightarrow> string) \<Rightarrow> product list \<Rightarrow> string" where
  "format1Of toFixed2 popularItems =
     joinWith (nl @ nl)
       (map (\<lambda>(index, item).
            let description = (if p_description item \<noteq> [] then '' - '' @ p_description item else [])
            in natStr (index + 1) @ ''. **'' @ p_name item @ ''** - $'' @ toFixed2 (p_price item) @ description)
          (enumerate 0 popularItems))"

definition format2Of :: "(rat \<Rightarrow> string) \<Rightarrow> product list \<Rightarrow> string" where
  "format2Of toFixed2 popularItems =
     joinWith (nl)
       (map (\<lambda>item.
            let description = (if p_description item \<noteq> [] then nl @ ''   '' @ p_description item else [])
            in bullet @ '' **'' @ p_name item @ ''** | $'' @ toFixed2 (p_price item) @ description)
          popularItems)"

definition format3Of :: "(rat \<Rightarrow> string) \<Rightarrow> product list \<Rightarrow> string" where
  "format3Of toFixed2 popularItems =
     joinWith (nl)
       (map (\<lambda>item.
            let description = (if p_description item \<noteq> [] then '' ('' @ p_description item @ '')'' else [])
            in arrow @ '' '' @ p_name item @ description @ '' '' @ emDash @ '' $'' @ toFixed2 (p_price item))
          popularItems)"

definition format4Of :: "(rat \<Rightarrow> string) \<Rightarrow> product list \<Rightarrow> string" where
  "format4Of toFixed2 popularItems =
     joinWith (nl @ nl)
       (map (\<lambda>item.
            ''**'' @ p_name item @ ''**'' @ nl @ ''   Price: $'' @ toFixed2 (p_price item) @
            (if p_description item \<noteq> [] then nl @ ''   '' @ p_description item else []))
          popularItems)"

definition format5Of :: "(rat \<Rightarrow> string) \<Rightarrow> product list \<Rightarrow> string" where
  "format5Of toFixed2 popularItems =
     joinWith (nl)
       (map (\<lambda>(index, item).
            ''['' @ natStr (index + 1) @ ''] '' @ p_name item @ '' '' @ emDash @ '' $'' @ toFixed2 (p_price item) @
            (if p_description item \<noteq> [] then '' | '' @ p_description item else []))
          (enumerate 0 popularItems))"

definition recommendationResponses :: "string \<Rightarrow> string \<Rightarrow> string \<Rightarrow> string \<Rightarrow> string \<Rightarrow> string list" where
  "recommendationResponses format1 format2 format3 format4 format5 =
     [
      ''Here's what's hot right now:'' @ nl @ nl @ format1 @ nl @ nl @
        ''Interested in any of these?'',
      ''Top picks from our menu:'' @ nl @ nl @ format2 @ nl @ nl @
        ''Which one catches your eye?'',
      ''Customer favorites:'' @ nl @ nl @ format3 @ nl @ nl @ ''Want details on any of these?'',
      ''Our most popular items:'' @ nl @ nl @ format4 @ nl @ nl @
        ''Curious about any of them?'' @ nl @ nl @ ''Feel free to ask!'',
      ''Best sellers:'' @ nl @ nl @ format5 @ nl @ nl @ ''What would you like to know?'' @ nl @
        nl @ ''I'm here to help.'',
      fire @ '' Trending items:'' @ nl @ nl @ format1 @ nl @ nl @
        ''Which one interests you?'' @ nl @ nl @ ''They're all great choices!'',
      ''Here are some top recommendations:'' @ nl @ nl @ format2 @ nl @ nl @
        ''Feel free to ask me anything!'' @ nl @ nl @
        ''I can give you more details on any item.'' @ nl @ nl @ ''What catches your eye?'',
      ''Popular choices:'' @ nl @ nl @ format3 @ nl @ nl @ ''Want to learn more?'' @ nl @ nl @
        ''Each one has something special.'' @ nl @ nl @ ''Which one sounds good to you?'',
      ''Our regulars love these:'' @ nl @ nl @ format4 @ nl @ nl @
        ''What questions do you have?'' @ nl @ nl @ ''I'm happy to help you decide.'' @ nl @
        nl @ ''Just let me know!'',
      ''Top-rated items:'' @ nl @ nl @ format5 @ nl @ nl @
        ''I can tell you more about any of them.'' @ nl @ nl @
        ''These are consistently our bestsellers.'' @ nl @ nl @
        ''Customers keep coming back for these.'' @ nl @ nl @ ''What would you like to know?'',
      star @ '' Customer favorites:'' @ nl @ nl @ format1 @ nl @ nl @
        ''Which one sounds good?'' @ nl @ nl @ ''They're all made with care.'' @ nl @ nl @
        ''Our team takes pride in each one.'' @ nl @ nl @ ''Want to hear more about any?'',
      ''Here's what people are ordering:'' @ nl @ nl @ format2 @ nl @ nl @
        ''Interested in any?'' @ nl @ nl @ ''These are the ones that get rave reviews.'' @ nl @
        nl @ ''People love the quality and taste.'' @ nl @ nl @ ''What would you like to try?'',
      ''Most popular right now:'' @ nl @ nl @ format3 @ nl @ nl @ ''Want more info?'' @ nl @
        nl @ ''I can share details about ingredients.'' @ nl @ nl @
        ''Or tell you about preparation methods.'' @ nl @ nl @ ''Just ask!'',
      ''Best of the menu:'' @ nl @ nl @ format4 @ nl @ nl @ ''What would you like to know?'' @
        nl @ nl @ ''Each item is carefully crafted.'' @ nl @ nl @
        ''We use premium ingredients.'' @ nl @ nl @ ''Which one interests you most?'',
      ''Top sellers this week:'' @ nl @ nl @ format5 @ nl @ nl @ ''Curious about any?'' @ nl @
        nl @ ''These have been flying off the shelves.'' @ nl @ nl @
        ''Our customers can't get enough.'' @ nl @ nl @ ''Want to know why they're so popular?''
     ]"

definition generateRecommendationResponse :: "(rat \<Rightarrow> string) \<Rightarrow> nat \<Rightarrow> product list \<Rightarrow> string" where
  "generateRecommendationResponse toFixed2 r products =
     (if products = []
      then ''I'm sorry, I don't have product information available at the moment. Please check back later!''
      else (let popularItems = popularItemsOf products
            in pick r (recommendationResponses (format1Of toFixed2 popularItems)
                 (format2Of toFixed2 popularItems) (format3Of toFixed2 popularItems)
                 (format4Of toFixed2 popularItems) (format5Of toFixed2 popularItems))))"

definition priceResponses :: "(rat \<Rightarrow> string) \<Rightarrow> product \<Rightarrow> string \<Rightarrow> string list" where
  "priceResponses toFixed2 product description =
     [
      moneyBag @ '' **'' @ p_name product @ ''**: $'' @ toFixed2 (p_price product) @
        description @ nl @ nl @ ''Add it to your cart?'',
      arrow @ '' '' @ p_name product @ '': **$'' @ toFixed2 (p_price product) @ ''**'' @
        description @ nl @ nl @ ''Add to cart?'',
      ''$'' @ toFixed2 (p_price product) @ '' '' @ emDash @ '' '' @ p_name product @
        description @ nl @ nl @ ''Should I add it?'',
      ''**'' @ p_name product @ ''** = $'' @ toFixed2 (p_price product) @ description @ nl @
        nl @ ''Add it?'',
      ''Price: **$'' @ toFixed2 (p_price product) @ ''**'' @ description @ nl @ nl @
        ''That's for the '' @ p_name product @ ''.'' @ nl @ nl @ ''Should I add it?'',
      ''**'' @ p_name product @ ''**'' @ nl @ ''$'' @ toFixed2 (p_price product) @
        description @ nl @ nl @ ''Want me to add it?'',
      ''**'' @ p_name product @ ''**'' @ nl @ ''Price: $'' @ toFixed2 (p_price product) @
        description @ nl @ nl @ ''Add it?'',
      ''$'' @ toFixed2 (p_price product) @ '' for '' @ p_name product @ ''.'' @ description @
        nl @ nl @ ''Want me to add it?'' @ nl @ nl @ ''It's a great choice!'',
      ''That's $'' @ toFixed2 (p_price product) @ ''.'' @ description @ nl @ nl @ ''The '' @
        p_name product @ '' is a great choice!'' @ nl @ nl @
        ''It's one of our popular items.'' @ nl @ nl @ ''Add it to your cart?'',
      ''Price: $'' @ toFixed2 (p_price product) @ description @ nl @ nl @ ''That's the '' @
        p_name product @ ''.'' @ nl @ nl @ ''It's really good!'' @ nl @ nl @ ''Add it?'',
      ''$'' @ toFixed2 (p_price product) @ '' '' @ emDash @ '' '' @ p_name product @
        description @ nl @ nl @ ''Should I add it to your cart?'' @ nl @ nl @
        ''It's a customer favorite.'' @ nl @ nl @ ''Want me to add it?'',
      ''**'' @ p_name product @ ''**: $'' @ toFixed2 (p_price product) @ description @ nl @
        nl @ ''Add it?'' @ nl @ nl @ ''It's definitely worth trying.'' @ nl @ nl @
        ''Should I go ahead?'',
      ''$'' @ toFixed2 (p_price product) @ '' for '' @ p_name product @ description @ nl @ nl @
        ''Want me to add it?'' @ nl @ nl @ ''This is one of our best sellers.'' @ nl @ nl @
        ''Customers love it!'' @ nl @ nl @ ''Should I add it to your cart?'',
      ''**'' @ p_name product @ ''**'' @ nl @ arrow @ '' $'' @ toFixed2 (p_price product) @
        description @ nl @ nl @ ''Add to cart?'' @ nl @ nl @
        ''It's made with premium ingredients.'' @ nl @ nl @ ''You'll love it!'' @ nl @ nl @
        ''Want me to add it?'',
      ''That one's $'' @ toFixed2 (p_price product) @ ''.'' @ description @ nl @ nl @
        ''The '' @ p_name product @ '' is excellent.'' @ nl @ nl @ ''It's a quality choice.'' @
        nl @ nl @ ''People keep coming back for it.'' @ nl @ nl @ ''Add it?'',
      ''$'' @ toFixed2 (p_price product) @ '' '' @ emDash @ '' '' @ p_name product @
        description @ nl @ nl @ ''Should I add it?'' @ nl @ nl @
        ''This item is really popular.'' @ nl @ nl @ ''It's prepared fresh daily.'' @ nl @ nl @
        ''Want me to add it to your order?''
     ]"

definition generatePriceResponse :: "(rat \<Rightarrow> string) \<Rightarrow> nat \<Rightarrow> product \<Rightarrow> string" where
  "generatePriceResponse toFixed2 r product =
     (let description = (if p_description product \<noteq> [] then '' '' @ p_description product else [])
      in pick r (priceResponses toFixed2 product description))"

definition followUpQuestions :: "string list" where
  "followUpQuestions =
     [
      ''Would you like to add anything else?'',
      ''Is there anything else you'd like to add?'',
      ''Would you like to add more items?'',
      ''Anything else you'd like to order?'',
      ''Can I help you with anything else?'',
      ''Would you like to add something more?'',
      ''Is there anything else I can add for you?'',
      ''Would you like to add any other items?''
     ]"

text \<open>
  The confirmations of added items. Variation \<open>k\<close> of the source draws its follow-up
  question with the \<open>k\<close>-th call of \<open>Math.random\<close>.
\<close>

definition messageVariations :: "(nat \<Rightarrow> nat) \<Rightarrow> string list \<Rightarrow> string \<Rightarrow> string list" where
  "messageVariations rnd itemNames itemText =
     [
      ''Great! I've added '' @ itemText @ '' to your cart. '' @
        (if length itemNames = 1 then ''It'' else ''They'') @ '' '' @
        (if length itemNames = 1 then ''is'' else ''are'') @ '' ready for checkout! '' @
        pick (rnd 0) followUpQuestions,
      ''Perfect! '' @ itemText @ '' '' @ (if length itemNames = 1 then ''has'' else ''have'') @
        '' been added to your cart. '' @ (if length itemNames = 1 then ''It'' else ''They'') @
        '' '' @ (if length itemNames = 1 then ''is'' else ''are'') @
        '' ready when you are! '' @ pick (rnd 1) followUpQuestions,
      ''Excellent choice! I've added '' @ itemText @ '' to your cart. '' @
        (if length itemNames = 1 then ''It'' else ''They'') @ '' '' @
        (if length itemNames = 1 then ''is'' else ''are'') @ '' waiting for you! '' @
        pick (rnd 2) followUpQuestions,
      ''Wonderful! '' @ itemText @ '' '' @ (if length itemNames = 1 then ''is'' else ''are'') @
        '' now in your cart. Ready to proceed to checkout! '' @ pick (rnd 3) followUpQuestions,
      ''Awesome! I've placed '' @ itemText @ '' in your cart. '' @
        (if length itemNames = 1 then ''It'' else ''They'') @ '' '' @
        (if length itemNames = 1 then ''is'' else ''are'') @ '' all set! '' @
        pick (rnd 4) followUpQuestions,
      ''Perfect selection! '' @ itemText @ '' '' @
        (if length itemNames = 1 then ''has'' else ''have'') @
        '' been added. Your cart is ready! '' @ pick (rnd 5) followUpQuestions,
      ''Great pick! I've added '' @ itemText @ '' to your cart. '' @
        (if length itemNames = 1 then ''It'' else ''They'') @ '' '' @
        (if length itemNames = 1 then ''looks'' else ''look'') @ '' delicious! '' @
        pick (rnd 6) followUpQuestions,
      ''Fantastic! '' @ itemText @ '' '' @ (if length itemNames = 1 then ''is'' else ''are'') @
        '' now in your cart. '' @ (if length itemNames = 1 then ''It'' else ''They'') @ '' '' @
        (if length itemNames = 1 then ''is'' else ''are'') @ '' ready for checkout! '' @
        pick (rnd 7) followUpQuestions,
      ''Lovely choice! I've added '' @ itemText @ '' to your cart. '' @
        (if length itemNames = 1 then ''It'' else ''They'') @ '' '' @
        (if length itemNames = 1 then ''is'' else ''are'') @ '' waiting for you! '' @
        pick (rnd 8) followUpQuestions,
      ''Superb! '' @ itemText @ '' '' @ (if length itemNames = 1 then ''has'' else ''have'') @
        '' been added to your cart. Ready to complete your order! '' @
        pick (rnd 9) followUpQuestions,
      ''Nice selection! I've placed '' @ itemText @ '' in your cart. '' @
        (if length itemNames = 1 then ''It'' else ''They'') @ '' '' @
        (if length itemNames = 1 then ''is'' else ''are'') @ '' all set for checkout! '' @
        pick (rnd 10) followUpQuestions,
      ''Wonderful! '' @ itemText @ '' '' @ (if length itemNames = 1 then ''is'' else ''are'') @
        '' now in your cart. '' @ (if length itemNames = 1 then ''It'' else ''They'') @ '' '' @
        (if length itemNames = 1 then ''is'' else ''are'') @ '' ready when you are! '' @
        pick (rnd 11) followUpQuestions
     ]"

definition orderResponses :: "(rat \<Rightarrow> string) \<Rightarrow> product \<Rightarrow> string \<Rightarrow> string list" where
  "orderResponses toFixed2 product description =
     [
      checkBox @ '' Added: **'' @ p_name product @ ''**'' @ nl @ moneyBag @ '' Price: $'' @
        toFixed2 (p_price product) @ description @ nl @ nl @ ''Anything else?'',
      ''**'' @ p_name product @ ''** '' @ arrow @ '' Cart '' @ checkMark @ nl @ ''$'' @
        toFixed2 (p_price product) @ description @ nl @ nl @ ''What's next?'',
      checkMark @ '' **'' @ p_name product @ ''** added'' @ nl @ ''$'' @
        toFixed2 (p_price product) @ description @ nl @ nl @ ''Need anything else?'',
      ''**'' @ p_name product @ ''** '' @ checkMark @ nl @ ''$'' @ toFixed2 (p_price product) @
        description @ nl @ nl @ ''Anything else?'',
      ''Done! '' @ p_name product @ '' is in your cart.'' @ description @ nl @ nl @
        ''Price: $'' @ toFixed2 (p_price product) @ nl @ nl @ ''Add more?'',
      ''Cart updated:'' @ nl @ bullet @ '' '' @ p_name product @ '' - $'' @
        toFixed2 (p_price product) @ description @ nl @ nl @ ''What else?'',
      ''Added to cart:'' @ nl @ ''**'' @ p_name product @ ''** | $'' @
        toFixed2 (p_price product) @ description @ nl @ nl @ ''More items?'',
      checkBox @ '' '' @ p_name product @ nl @ ''$'' @ toFixed2 (p_price product) @
        description @ nl @ nl @ ''Add more?'',
      ''**'' @ p_name product @ ''** is now in your cart.'' @ description @ nl @ nl @
        ''Price: $'' @ toFixed2 (p_price product) @ nl @ nl @ ''What else?'' @ nl @ nl @
        ''Ready for checkout when you are!'',
      arrow @ '' '' @ p_name product @ '' added'' @ nl @ ''$'' @ toFixed2 (p_price product) @
        description @ nl @ nl @ ''Need anything else?'' @ nl @ nl @
        ''Your order is taking shape!'',
      ''Cart: **'' @ p_name product @ ''** '' @ checkMark @ nl @ ''$'' @
        toFixed2 (p_price product) @ description @ nl @ nl @ ''What's next?'' @ nl @ nl @
        ''I'm here if you need more!'',
      ''**'' @ p_name product @ ''** '' @ arrow @ '' $'' @ toFixed2 (p_price product) @
        description @ nl @ nl @ ''Added! More items?'' @ nl @ nl @
        ''Your cart is looking good!'',
      checkMark @ '' Added **'' @ p_name product @ ''**'' @ nl @ ''$'' @
        toFixed2 (p_price product) @ description @ nl @ nl @ ''Anything else?'' @ nl @ nl @
        ''It's all set and ready.'' @ nl @ nl @ ''What would you like next?'',
      ''**'' @ p_name product @ ''** is ready!'' @ description @ nl @ nl @ ''$'' @
        toFixed2 (p_price product) @ nl @ nl @ ''Add more?'' @ nl @ nl @
        ''Your selection is perfect.'' @ nl @ nl @ ''Need anything else?'',
      ''Cart updated with **'' @ p_name product @ ''**'' @ nl @ ''$'' @
        toFixed2 (p_price product) @ description @ nl @ nl @ ''What else?'' @ nl @ nl @
        ''It's ready for checkout.'' @ nl @ nl @ ''Want to add more items?'',
      ''**'' @ p_name product @ ''** '' @ checkMark @ '' $'' @ toFixed2 (p_price product) @
        description @ nl @ nl @ ''Need anything else?'' @ nl @ nl @ ''Your cart is ready.'' @
        nl @ nl @ ''I can help you add more.'' @ nl @ nl @ ''What would you like?''
     ]"

definition priceAskResponse :: string where
  "priceAskResponse =
     ''I'd be happy to help you with pricing! Could you please specify which item you'd like to know the price of?''"

definition fallbackResponse :: string where
  "fallbackResponse =
     ''I'm sorry, I didn't catch that. Could you please elaborate?''"

definition errorResponseContent :: string where
  "errorResponseContent =
     ''I'm sorry, I encountered an error. Please try again or check your connection.''"

definition emptyCartToast :: string where
  "emptyCartToast =
     ''Your cart is empty. Please add items first.''"

section \<open>Sending a message\<close>

text \<open>
  Modelled from the spec: the declaration of \<open>MessageInterface\<close> (\<open>types/types\<close>) is not
  among the sources. A message has the role and the content of the spec's
  \<open>ConversationTurn\<close>.
\<close>

record message =
  m_role :: string
  m_content :: string

text \<open>
  The error that \<open>callChatBotAPI\<close> throws, by the two fields the handler reads:
  \<open>err.response?.data?.error\<close> and \<open>err.message\<close> (\<open>None\<close> for \<open>undefined\<close>).
\<close>

record apiError =
  e_responseError :: "string option"
  e_message :: "string option"

text \<open>
  The outcome of \<open>callChatBotAPI\<close>: it throws, or it returns the assistant message (whose
  content it has checked to be a string) with the full response.
\<close>

datatype apiOutcome = Throws apiError | Returns message "json option"

text \<open>
  The chat room's state: the conversation, the input field, the flags, the error toasts
  shown so far, and the order state with the cart.
\<close>

record chatState =
  messages :: "message list"
  inputValue :: string
  isSending :: bool
  isTyping :: bool
  showPaymentModal :: bool
  toasts :: "string list"
  orders :: orderState

definition userMessage :: "string \<Rightarrow> message" where
  "userMessage text = \<lparr>m_role = ''user'', m_content = text\<rparr>"

definition errorResponse :: message where
  "errorResponse = \<lparr>m_role = ''assistant'', m_content = errorResponseContent\<rparr>"

text \<open>\<open>err.response?.data?.error || err.message || 'Error sending message'\<close>\<close>

definition errorMessageOf :: "apiError \<Rightarrow> string" where
  "errorMessageOf err =
     (case e_responseError err of
        Some e \<Rightarrow> if e \<noteq> [] then e
                  else (case e_message err of
                          Some m \<Rightarrow> if m \<noteq> [] then m else ''Error sending message''
                        | None \<Rightarrow> ''Error sending message'')
      | None \<Rightarrow> (case e_message err of
                   Some m \<Rightarrow> if m \<noteq> [] then m else ''Error sending message''
                 | None \<Rightarrow> ''Error sending message''))"

text \<open>
  The names of the new items that are matched to a product and not yet processed
  (\<open>matchedItems.map(m => m.name)\<close>).
\<close>

definition matchedNames :: "product list \<Rightarrow> (string \<times> rat) set \<Rightarrow> orderItem list \<Rightarrow> string list" where
  "matchedNames products processedSeen newItems =
     List.map_filter
       (\<lambda>item. let qty = validQuantity (oi_quantity item)
               in case matchOrderItemToProduct item products of
                    Some product \<Rightarrow>
                      if (p_id product, qty) \<notin> processedSeen then Some (p_name product) else None
                  | None \<Rightarrow> None)
       newItems"

definition itemTextOf :: "string list \<Rightarrow> string" where
  "itemTextOf itemNames =
     (if length itemNames = 1 then hd itemNames
      else joinWith '', '' (butlast itemNames) @ '' and '' @ last itemNames)"

text \<open>
  The branch for a response that carries order items: the orders are processed, and a
  blank content is replaced by a confirmation when some new item is matched. The result
  is the content and the order state.
\<close>

definition orderReply ::
  "product list \<Rightarrow> (nat \<Rightarrow> nat) \<Rightarrow> string \<Rightarrow> orderItem list \<Rightarrow> orderState \<Rightarrow> string \<times> orderState" where
  "orderReply products rnd content orderItems ord =
     (let newItems = newItemsOf (lastOrderHash ord) orderItems;
          ord' = processOrdersFromMemory products (processedOrders ord) (cartItems ord) ord orderItems
      in if newItems \<noteq> []
         then (let itemNames = matchedNames products (processedOrders ord) newItems
               in if itemNames \<noteq> [] \<and> trim content = []
                  then (pick (rnd 12) (messageVariations rnd itemNames (itemTextOf itemNames)), ord')
                  else (content, ord'))
         else (content, ord'))"

text \<open>
  The branch for a blank content without order items: the informational handlers, and
  the final fallback when none of them has handled the message.
\<close>

definition infoReply ::
  "product list \<Rightarrow> (rat \<Rightarrow> string) \<Rightarrow> (nat \<Rightarrow> nat) \<Rightarrow> string \<Rightarrow> orderState \<Rightarrow> string \<times> orderState" where
  "infoReply products toFixed2 rnd message ord =
     (if isRecommendationQuery message
      then (generateRecommendationResponse toFixed2 (rnd 0) products, ord)
      else if isPriceQuery message
      then (case extractProductNameFromQuery message products of
              Some product \<Rightarrow> (generatePriceResponse toFixed2 (rnd 0) product, ord)
            | None \<Rightarrow> (priceAskResponse, ord))
      else if includesStr (toLowerCase message) ''order'' \<or> includesStr (toLowerCase message) ''add'' \<or>
              includesStr (toLowerCase message) ''like to''
      then (case extractProductNameFromQuery message products of
              Some product \<Rightarrow>
                (let isAlreadyInCart =
                       list_ex (\<lambda>item. p_id (ci_product item) = p_id product \<and> ci_quantity item \<ge> 1)
                         (cartItems ord);
                     isAlreadyProcessed = ((p_id product, 1) \<in> processedOrders ord)
                 in if \<not> isAlreadyInCart \<and> \<not> isAlreadyProcessed
                    then (let description =
                                (if p_description product \<noteq> [] then '' '' @ p_description product
                                 else [])
                          in (pick (rnd 0) (orderResponses toFixed2 product description),
                              ord\<lparr>cartItems := addToCart product 1 (cartItems ord),
                                  processedOrders := insert (p_id product, 1) (processedOrders ord)\<rparr>))
                    else (fallbackResponse, ord))
            | None \<Rightarrow> (fallbackResponse, ord))
      else (fallbackResponse, ord))"

text \<open>The body of the \<open>try\<close> after the call has returned: the reply's content and the order state.\<close>

definition respond ::
  "product list \<Rightarrow> (rat \<Rightarrow> string) \<Rightarrow> (json \<Rightarrow> jsnum) \<Rightarrow> (nat \<Rightarrow> nat) \<Rightarrow> string \<Rightarrow> message \<Rightarrow>
   json option \<Rightarrow> orderState \<Rightarrow> string \<times> orderState" where
  "respond products toFixed2 coerce rnd message responseMessage fullResponse ord =
     (let orderItems = (if truthyOpt fullResponse then extractOrderFromMemory coerce fullResponse else []);
          hasOrders = (orderItems \<noteq> []);
          handled = (if truthyOpt fullResponse \<and> hasOrders
                     then orderReply products rnd (m_content responseMessage) orderItems ord
                     else (m_content responseMessage, ord))
      in if trim (fst handled) = [] \<and> \<not> hasOrders
         then infoReply products toFixed2 rnd message (snd handled)
         else handled)"

text \<open>
  \<open>handleSendMessage\<close>, as the state once its timers have fired: the reply is in the
  conversation, and after a completion phrase the payment modal is open. The delays are
  not modelled. \<open>callChatBotAPI\<close> is the outcome of the call on the messages sent.
\<close>

definition handleSendMessage ::
  "product list \<Rightarrow> (rat \<Rightarrow> string) \<Rightarrow> (json \<Rightarrow> jsnum) \<Rightarrow> (nat \<Rightarrow> nat) \<Rightarrow> (message list \<Rightarrow> apiOutcome) \<Rightarrow>
   string option \<Rightarrow> chatState \<Rightarrow> chatState" where
  "handleSendMessage products toFixed2 coerce rnd callChatBotAPI messageText st =
     (let message = trim (case messageText of
                            Some t \<Rightarrow> if t \<noteq> [] then t else inputValue st
                          | None \<Rightarrow> inputValue st)
      in if message = [] \<or> isSending st then st
         else if isOrderCompletion message
         then (if cartItems (orders st) = []
               then st\<lparr>toasts := toasts st @ [emptyCartToast]\<rparr>
               else st\<lparr>messages := messages st @ [userMessage message], inputValue := [],
                       isSending := False, isTyping := False, showPaymentModal := True\<rparr>)
         else (let InputMessages = messages st @ [userMessage message]
               in case callChatBotAPI InputMessages of
                    Throws err \<Rightarrow>
                      st\<lparr>messages := InputMessages @ [errorResponse], inputValue := [],
                         isSending := False, isTyping := False,
                         toasts := toasts st @ [errorMessageOf err]\<rparr>
                  | Returns responseMessage fullResponse \<Rightarrow>
                      (let reply = respond products toFixed2 coerce rnd message responseMessage
                                     fullResponse (orders st)
                       in st\<lparr>messages := InputMessages @ [responseMessage\<lparr>m_content := fst reply\<rparr>],
                             inputValue := [], isSending := False, isTyping := False,
                             orders := snd reply\<rparr>)))"

section \<open>Polling a pending job\<close>

text \<open>\<open>s.split('/')\<close>; the first argument is the piece read so far.\<close>

fun splitSlash :: "string \<Rightarrow> string \<Rightarrow> string list" where
  "splitSlash cur [] = [cur]"
| "splitSlash cur (c # cs) =
     (if c = CHR ''/'' then cur # splitSlash [] cs else splitSlash (cur @ [c]) cs)"

text \<open>\<open>parts.findIndex(part => part === 'v2') + 1\<close>: zero when no part is \<open>v2\<close>.\<close>

fun endpointIdIndex :: "string list \<Rightarrow> nat" where
  "endpointIdIndex [] = 0"
| "endpointIdIndex (part # parts) =
     (if part = ''v2'' then 1
      else (case endpointIdIndex parts of 0 \<Rightarrow> 0 | Suc i \<Rightarrow> Suc (Suc i)))"

datatype pollError =
    NoEndpointId
  | InvalidUrl
  | JobFailed json
  | NotAnObject
  | RequestFailed "nat option"
  | JobTimeout rat

text \<open>
  What one \<open>axios.get\<close> of the status endpoint gives: a response with its \<open>data\<close>, or a
  thrown error with its \<open>error.response?.status\<close>.
\<close>

datatype getResult = Response json | Failure "nat option"

text \<open>
  The status URL. \<open>urlPathname\<close> stands for \<open>new URL(u).pathname\<close>, which throws on a
  string that is not a URL (\<open>None\<close>).
\<close>

definition statusUrlOf :: "string \<Rightarrow> (string \<Rightarrow> string option) \<Rightarrow> string \<Rightarrow> pollError + string" where
  "statusUrlOf API_URL urlPathname jobId =
     (if prefix ''/api/runpod'' API_URL
      then (let urlParts = splitSlash [] API_URL; i = endpointIdIndex urlParts
            in if i > 0 \<and> i < length urlParts
               then Inr (''/api/runpod/v2/'' @ urlParts ! i @ ''/status/'' @ jobId)
               else Inl NoEndpointId)
      else (case urlPathname API_URL of
              None \<Rightarrow> Inl InvalidUrl
            | Some pathname \<Rightarrow>
                (let pathParts = splitSlash [] pathname; i = endpointIdIndex pathParts
                 in if i > 0 \<and> i < length pathParts
                    then Inr (''https://api.runpod.ai/v2/'' @ pathParts ! i @ ''/status/'' @ jobId)
                    else Inl NoEndpointId)))"

text \<open>
  The \<open>for\<close> loop. \<open>get statusUrl attempt\<close> is the outcome of the request made in
  iteration \<open>attempt\<close>. The result is paired with the number of requests made. The waits
  between requests are not modelled.
\<close>

function pollLoop ::
  "(string \<Rightarrow> nat \<Rightarrow> getResult) \<Rightarrow> string \<Rightarrow> nat \<Rightarrow> rat \<Rightarrow> nat \<Rightarrow> (pollError + json) \<times> nat" where
  "pollLoop get statusUrl maxAttempts pollInterval attempt =
     (if attempt < maxAttempts
      then (case get statusUrl attempt of
              Response statusData \<Rightarrow>
                (if statusData = JNull then (Inl NotAnObject, Suc attempt)
                 else if getProp statusData ''status'' = Some (JStr ''COMPLETED'')
                 then (Inr statusData, Suc attempt)
                 else if getProp statusData ''status'' = Some (JStr ''FAILED'')
                 then (Inl (JobFailed (orElse (getProp statusData ''error'') (JStr ''Unknown error''))),
                       Suc attempt)
                 else pollLoop get statusUrl maxAttempts pollInterval (Suc attempt))
            | Failure status \<Rightarrow>
                (if status = Some 404
                 then pollLoop get statusUrl maxAttempts pollInterval (Suc attempt)
                 else (Inl (RequestFailed status), Suc attempt)))
      else (Inl (JobTimeout (of_nat maxAttempts * pollInterval / 1000)), attempt))"
  by pat_completeness auto
termination
  by (relation "measure (\<lambda>(get, statusUrl, maxAttempts, pollInterval, attempt). maxAttempts - attempt)")
     auto

declare pollLoop.simps [simp del]

definition pollJobStatus ::
  "string \<Rightarrow> (string \<Rightarrow> string option) \<Rightarrow> (string \<Rightarrow> nat \<Rightarrow> getResult) \<Rightarrow>
   string \<Rightarrow> nat \<Rightarrow> rat \<Rightarrow> (pollError + json) \<times> nat" where
  "pollJobStatus API_URL urlPathname get jobId maxAttempts pollInterval =
     (case statusUrlOf API_URL urlPathname jobId of
        Inl e \<Rightarrow> (Inl e, 0)
      | Inr statusUrl \<Rightarrow> pollLoop get statusUrl maxAttempts pollInterval 0)"

definition defaultMaxAttempts :: nat where
  "defaultMaxAttempts = 150"

definition defaultPollInterval :: rat where
  "defaultPollInterval = 2000"

text \<open>
  A response of the status endpoint that lets the loop go on: any status other than
  \<open>COMPLETED\<close> and \<open>FAILED\<close>, or the HTTP error 404.
\<close>

fun pending :: "getResult \<Rightarrow> bool" where
  "pending (Response statusData) =
     (statusData \<noteq> JNull \<and> getProp statusData ''status'' \<noteq> Some (JStr ''COMPLETED'') \<and>
      getProp statusData ''status'' \<noteq> Some (JStr ''FAILED''))"
| "pending (Failure status) = (status = Some 404)"

section \<open>Example data\<close>

text \<open>Products, cart lines and responses for the concrete instances below.\<close>

definition mkProduct :: "string \<Rightarrow> string \<Rightarrow> rat \<Rightarrow> product" where
  "mkProduct i n pr =
     \<lparr>p_id = i, p_name = n, p_description = [], p_price = pr, p_image = [], p_category = []\<rparr>"

definition mkLine :: "product \<Rightarrow> rat \<Rightarrow> cartItem" where
  "mkLine p q = \<lparr>ci_product = p, ci_quantity = q\<rparr>"

definition exStatus :: "string \<Rightarrow> getResult" where
  "exStatus s = Response (JObj [(''status'', JStr s)])"

definition exResp :: "json list \<Rightarrow> json option" where
  "exResp items = Some (JObj [(''output'', JObj [(''role'', JStr ''assistant''), (''content'', JStr []),
       (''memory'', JObj [(''agent'', JStr ''order_taking_agent''), (''order'', JArr items)])])])"



definition plainFixed :: "rat \<Rightarrow> string" where
  "plainFixed x = ''0.00''"

definition noCoerce :: "json \<Rightarrow> jsnum" where
  "noCoerce v = NaN"

definition firstDraw :: "nat \<Rightarrow> nat" where
  "firstDraw k = 0"

definition apiReturns :: "string \<Rightarrow> json option \<Rightarrow> message list \<Rightarrow> apiOutcome" where
  "apiReturns text fullResponse sent = Returns \<lparr>m_role = ''assistant'', m_content = text\<rparr> fullResponse"

definition apiThrows :: "string \<Rightarrow> message list \<Rightarrow> apiOutcome" where
  "apiThrows text sent = Throws \<lparr>e_responseError = None, e_message = Some text\<rparr>"

definition chatWith :: "cartItem list \<Rightarrow> chatState" where
  "chatWith cart =
     \<lparr>messages = [], inputValue = [], isSending = False, isTyping = False,
      showPaymentModal = False, toasts = [],
      orders = \<lparr>lastOrderHash = None, processedOrders = {}, cartItems = cart\<rparr>\<rparr>"

section \<open>Properties of strings and of the order extractor\<close>

lemma trim_eq_Nil_iff: "trim s = [] \<longleftrightarrow> (\<forall>c\<in>set s. isSpace c)"
proof -
  have "trim s = [] \<longleftrightarrow> dropWhile isSpace (rev (dropWhile isSpace s)) = []"
    by (simp add: trim_def)
  also have "\<dots> \<longleftrightarrow> (\<forall>c\<in>set (dropWhile isSpace s). isSpace c)"
    by (simp add: dropWhile_eq_Nil_conv)
  also have "\<dots> \<longleftrightarrow> (\<forall>c\<in>set s. isSpace c)"
  proof
    assume a: "\<forall>c\<in>set (dropWhile isSpace s). isSpace c"
    have "dropWhile isSpace s = []"
    proof (rule ccontr)
      assume "dropWhile isSpace s \<noteq> []"
      then have "\<not> isSpace (hd (dropWhile isSpace s))" by (rule hd_dropWhile)
      moreover have "hd (dropWhile isSpace s) \<in> set (dropWhile isSpace s)"
        using \<open>dropWhile isSpace s \<noteq> []\<close> by simp
      ultimately show False using a by blast
    qed
    then show "\<forall>c\<in>set s. isSpace c" by (simp add: dropWhile_eq_Nil_conv)
  next
    assume "\<forall>c\<in>set s. isSpace c"
    then show "\<forall>c\<in>set (dropWhile isSpace s). isSpace c"
      using set_dropWhileD by fastforce
  qed
  finally show ?thesis .
qed

text \<open>
  C5: \<open>isOrderCompletion\<close> is a function of the message text alone. It holds exactly
  when the lowercased and trimmed message contains one of the fixed completion phrases as a
  substring. When it holds of the message sent, \<open>handleSendMessage\<close> does not depend on
  what the chatbot call would give.
\<close>

theorem isOrderCompletion_iff:
  "(isOrderCompletion message \<longleftrightarrow>
     (\<exists>phrase\<in>set completionPhrases. \<exists>before after.
        trim (toLowerCase message) = before @ phrase @ after)) \<and>
   (isOrderCompletion (trim (case messageText of
                               Some t \<Rightarrow> if t \<noteq> [] then t else inputValue st
                             | None \<Rightarrow> inputValue st)) \<longrightarrow>
      handleSendMessage products toFixed2 coerce rnd callChatBotAPI messageText st
        = handleSendMessage products toFixed2 coerce rnd callChatBotAPI' messageText st)"
proof -
  have "isOrderCompletion message \<longleftrightarrow>
     (\<exists>phrase\<in>set completionPhrases. \<exists>before after.
        trim (toLowerCase message) = before @ phrase @ after)"
    by (simp add: isOrderCompletion_def includesStr_def sublist_def list_ex_iff)
  moreover have "handleSendMessage products toFixed2 coerce rnd callChatBotAPI messageText st
        = handleSendMessage products toFixed2 coerce rnd callChatBotAPI' messageText st"
    if "isOrderCompletion (trim (case messageText of
                               Some t \<Rightarrow> if t \<noteq> [] then t else inputValue st
                             | None \<Rightarrow> inputValue st))"
    using that by (simp add: handleSendMessage_def Let_def)
  ultimately show ?thesis by blast
qed

theorem isOrderCompletion_witness:
  "(\<exists>phrase\<in>set completionPhrases. \<exists>before after.
     trim (toLowerCase ''  OK, That's all thanks '') = before @ phrase @ after) \<and>
   handleSendMessage [] plainFixed noCoerce firstDraw (apiReturns ''Sure!'' None)
       (Some ''  OK, That's all thanks '') (chatWith [])
     = handleSendMessage [] plainFixed noCoerce firstDraw (apiThrows ''Network error'')
       (Some ''  OK, That's all thanks '') (chatWith [])"
proof -
  have c: "isOrderCompletion ''  OK, That's all thanks ''" by code_simp
  have d: "isOrderCompletion (trim (case Some ''  OK, That's all thanks '' of
                               Some t \<Rightarrow> if t \<noteq> [] then t else inputValue (chatWith [])
                             | None \<Rightarrow> inputValue (chatWith [])))"
    by code_simp
  from c d isOrderCompletion_iff [where message = "''  OK, That's all thanks ''"
      and messageText = "Some ''  OK, That's all thanks ''" and st = "chatWith []"
      and products = "[]" and ?toFixed2.0 = plainFixed and coerce = noCoerce and rnd = firstDraw
      and callChatBotAPI = "apiReturns ''Sure!'' None"
      and callChatBotAPI' = "apiThrows ''Network error''"]
  show ?thesis by blast
qed

lemma filterThrowing_keepItem:
  "filterThrowing keepItem rs = Some ys \<Longrightarrow> \<forall>y\<in>set ys. trim (oi_item y) \<noteq> []"
proof (induction rs arbitrary: ys)
  case Nil
  then show ?case by simp
next
  case (Cons r rs)
  then show ?case
    by (auto simp: keepItem_def split: option.splits if_splits json.splits)
qed

lemma extract_items_named:
  assumes "y \<in> set (extractOrderFromMemory coerce responseData)"
  shows "trim (oi_item y) \<noteq> []"
proof (cases "mapThrowing (normalizeItem coerce) (rawOrderItems responseData)")
  case None
  with assms show ?thesis by (simp add: extractOrderFromMemory_def)
next
  case (Some normalized)
  show ?thesis
  proof (cases "filterThrowing keepItem normalized")
    case None
    with Some assms show ?thesis by (simp add: extractOrderFromMemory_def)
  next
    case (Some ys)
    with \<open>mapThrowing (normalizeItem coerce) (rawOrderItems responseData) = Some normalized\<close> assms
    have "y \<in> set ys" by (simp add: extractOrderFromMemory_def)
    with filterThrowing_keepItem [OF Some] show ?thesis by blast
  qed
qed

lemma trim_nonblank: "trim s \<noteq> [] \<Longrightarrow> s \<noteq> [] \<and> \<not> list_all isSpace s"
  by (auto simp: trim_eq_Nil_iff list_all_iff)

lemma rawOrderItems_no_array:
  "\<not> isArray (orderAt responseData [''output'']) \<Longrightarrow> \<not> isArray (orderAt responseData []) \<Longrightarrow>
   \<not> isArray (orderAt responseData [''data'']) \<Longrightarrow> rawOrderItems responseData = []"
  by (simp add: rawOrderItems_def)

text \<open>
  C9: \<open>extractOrderFromMemory\<close> returns a list for every input, a \<open>TypeError\<close> raised
  by either callback being turned into the empty list. Every returned item has a name that
  is neither empty nor all whitespace. A response with no array at any of the three
  locations of the memory yields the empty list.
\<close>

theorem extractOrderFromMemory_sanitizing:
  "(\<forall>y\<in>set (extractOrderFromMemory coerce responseData).
      oi_item y \<noteq> [] \<and> \<not> list_all isSpace (oi_item y)) \<and>
   (\<not> isArray (orderAt responseData [''output'']) \<and> \<not> isArray (orderAt responseData []) \<and>
    \<not> isArray (orderAt responseData [''data'']) \<longrightarrow>
      extractOrderFromMemory coerce responseData = []) \<and>
   (mapThrowing (normalizeItem coerce) (rawOrderItems responseData) = None \<longrightarrow>
      extractOrderFromMemory coerce responseData = []) \<and>
   ((\<exists>normalized. mapThrowing (normalizeItem coerce) (rawOrderItems responseData) = Some normalized \<and>
        filterThrowing keepItem normalized = None) \<longrightarrow>
      extractOrderFromMemory coerce responseData = [])"
proof -
  have named: "\<forall>y\<in>set (extractOrderFromMemory coerce responseData).
      oi_item y \<noteq> [] \<and> \<not> list_all isSpace (oi_item y)"
  proof
    fix y assume "y \<in> set (extractOrderFromMemory coerce responseData)"
    then have "trim (oi_item y) \<noteq> []" by (rule extract_items_named)
    then show "oi_item y \<noteq> [] \<and> \<not> list_all isSpace (oi_item y)" by (rule trim_nonblank)
  qed
  have shape: "extractOrderFromMemory coerce responseData = []"
    if "\<not> isArray (orderAt responseData [''output'']) \<and> \<not> isArray (orderAt responseData []) \<and>
        \<not> isArray (orderAt responseData [''data''])"
  proof -
    from that have "rawOrderItems responseData = []" by (simp add: rawOrderItems_no_array)
    then show ?thesis by (simp add: extractOrderFromMemory_def)
  qed
  have thrown_map: "extractOrderFromMemory coerce responseData = []"
    if "mapThrowing (normalizeItem coerce) (rawOrderItems responseData) = None"
    using that by (simp add: extractOrderFromMemory_def)
  have thrown_filter: "extractOrderFromMemory coerce responseData = []"
    if "\<exists>normalized. mapThrowing (normalizeItem coerce) (rawOrderItems responseData) = Some normalized \<and>
        filterThrowing keepItem normalized = None"
    using that by (auto simp: extractOrderFromMemory_def)
  from named shape thrown_map thrown_filter show ?thesis by blast
qed

theorem extractOrderFromMemory_sanitizing_witness:
  "set (extractOrderFromMemory (\<lambda>v. NaN)
          (exResp [JObj [(''item'', JStr ''Latte''), (''quantity'', JNum 2)],
                   JObj [(''item'', JStr ''  ''), (''quantity'', JNum 1)]]))
     = {\<lparr>oi_item = ''Latte'', oi_price = JNum 0, oi_quantity = Num 2\<rparr>} \<and>
   \<not> list_all isSpace (oi_item (hd (extractOrderFromMemory (\<lambda>v. NaN)
          (exResp [JObj [(''item'', JStr ''Latte''), (''quantity'', JNum 2)],
                   JObj [(''item'', JStr ''  ''), (''quantity'', JNum 1)]])))) \<and>
   extractOrderFromMemory (\<lambda>v. NaN) (Some (JStr ''oops'')) = [] \<and>
   extractOrderFromMemory (\<lambda>v. NaN) (exResp [JObj [(''item'', JStr ''Latte'')], JNull]) = [] \<and>
   extractOrderFromMemory (\<lambda>v. NaN) (exResp [JObj [(''item'', JNum 7)]]) = []"
proof -
  let ?r = "exResp [JObj [(''item'', JStr ''Latte''), (''quantity'', JNum 2)],
                   JObj [(''item'', JStr ''  ''), (''quantity'', JNum 1)]]"
  have a: "extractOrderFromMemory (\<lambda>v. NaN) ?r
             = [\<lparr>oi_item = ''Latte'', oi_price = JNum 0, oi_quantity = Num 2\<rparr>]"
    by code_simp
  have b: "\<not> isArray (orderAt (Some (JStr ''oops'')) [''output'']) \<and>
           \<not> isArray (orderAt (Some (JStr ''oops'')) []) \<and>
           \<not> isArray (orderAt (Some (JStr ''oops'')) [''data''])"
    by code_simp
  have c: "mapThrowing (normalizeItem (\<lambda>v. NaN))
             (rawOrderItems (exResp [JObj [(''item'', JStr ''Latte'')], JNull])) = None"
    by code_simp
  have d: "\<exists>normalized. mapThrowing (normalizeItem (\<lambda>v. NaN))
             (rawOrderItems (exResp [JObj [(''item'', JNum 7)]])) = Some normalized \<and>
           filterThrowing keepItem normalized = None"
    by (rule exI [of _ "[\<lparr>r_item = JNum 7, r_price = JNum 0, r_quantity = Num 1\<rparr>]"]) code_simp
  show ?thesis
    using a extractOrderFromMemory_sanitizing [of "\<lambda>v. NaN" ?r]
      extractOrderFromMemory_sanitizing [of "\<lambda>v. NaN" "Some (JStr ''oops'')"] b
      extractOrderFromMemory_sanitizing [of "\<lambda>v. NaN" "exResp [JObj [(''item'', JStr ''Latte'')], JNull]"] c
      extractOrderFromMemory_sanitizing [of "\<lambda>v. NaN" "exResp [JObj [(''item'', JNum 7)]]"] d
    by simp
qed

section \<open>Properties of the cart and of order processing\<close>

lemma lineIds_addToCart_existing:
  "find (\<lambda>item. p_id (ci_product item) = p_id product) cart = Some existing \<Longrightarrow>
   lineIds (addToCart product quantity cart) = lineIds cart"
  by (simp add: addToCart_def lineIds_def Let_def)

lemma find_None_lineIds:
  "find (\<lambda>item. p_id (ci_product item) = pid) cart = None \<longleftrightarrow> pid \<notin> set (lineIds cart)"
  by (auto simp: find_None_iff lineIds_def)

lemma lineIds_addToCart_new:
  "find (\<lambda>item. p_id (ci_product item) = p_id product) cart = None \<Longrightarrow>
   lineIds (addToCart product quantity cart) = lineIds cart @ [p_id product]"
  by (simp add: addToCart_def lineIds_def)

lemma distinct_addToCart:
  "distinct (lineIds cart) \<Longrightarrow> distinct (lineIds (addToCart product quantity cart))"
proof (cases "find (\<lambda>item. p_id (ci_product item) = p_id product) cart")
  case None
  assume "distinct (lineIds cart)"
  with None show ?thesis
    by (simp add: lineIds_addToCart_new find_None_lineIds [symmetric])
next
  case (Some existing)
  assume "distinct (lineIds cart)"
  with Some show ?thesis by (simp add: lineIds_addToCart_existing)
qed

lemma find_map_update:
  "find P xs = Some x \<Longrightarrow> (\<And>y. P (f y) = P y) \<Longrightarrow> find P (map f xs) = Some (f x)"
  by (induction xs) (auto split: if_splits)

lemma distinct_foldl_addToCart:
  "distinct (lineIds cart) \<Longrightarrow>
   distinct (lineIds (foldl (\<lambda>cart (product, quantity). addToCart product quantity cart) cart adds))"
  by (induction adds arbitrary: cart) (auto simp: distinct_addToCart)

text \<open>
  C3: Adding a product whose id already has a line leaves the lines and their ids as they
  are and increases the quantity of the (first) line of that id by the added quantity;
  lines of other ids are unchanged. Adding a product with a new id appends exactly one line.
  \<open>addToCart\<close> keeps the ids of the lines distinct, so every cart built from the empty
  cart by \<open>addToCart\<close> has at most one line per product id.
\<close>

theorem addToCart_one_line_per_product:
  "(\<forall>existing. find (\<lambda>item. p_id (ci_product item) = p_id product) cart = Some existing \<longrightarrow>
      lineIds (addToCart product quantity cart) = lineIds cart \<and>
      find (\<lambda>item. p_id (ci_product item) = p_id product) (addToCart product quantity cart)
        = Some (existing\<lparr>ci_quantity := ci_quantity existing + quantity\<rparr>) \<and>
      (\<forall>i<length cart. p_id (ci_product (cart ! i)) \<noteq> p_id product \<longrightarrow>
         addToCart product quantity cart ! i = cart ! i)) \<and>
   (p_id product \<notin> set (lineIds cart) \<longrightarrow>
      addToCart product quantity cart = cart @ [\<lparr>ci_product = product, ci_quantity = quantity\<rparr>]) \<and>
   (distinct (lineIds cart) \<longrightarrow> distinct (lineIds (addToCart product quantity cart))) \<and>
   distinct (lineIds (addAll adds))"
proof (intro conjI allI impI)
  fix existing
  assume f: "find (\<lambda>item. p_id (ci_product item) = p_id product) cart = Some existing"
  show "lineIds (addToCart product quantity cart) = lineIds cart"
    using f by (rule lineIds_addToCart_existing)
  have "p_id (ci_product existing) = p_id product"
    using f by (auto simp: find_Some_iff)
  then show "find (\<lambda>item. p_id (ci_product item) = p_id product) (addToCart product quantity cart)
        = Some (existing\<lparr>ci_quantity := ci_quantity existing + quantity\<rparr>)"
    using f find_map_update [OF f, of "\<lambda>item. if p_id (ci_product item) = p_id product
                            then item\<lparr>ci_quantity := ci_quantity existing + quantity\<rparr> else item"]
    by (simp add: addToCart_def Let_def)
  fix i
  assume "i < length cart" "p_id (ci_product (cart ! i)) \<noteq> p_id product"
  then show "addToCart product quantity cart ! i = cart ! i"
    using f by (simp add: addToCart_def Let_def)
next
  assume "p_id product \<notin> set (lineIds cart)"
  then have "find (\<lambda>item. p_id (ci_product item) = p_id product) cart = None"
    by (simp add: find_None_lineIds)
  then show "addToCart product quantity cart = cart @ [\<lparr>ci_product = product, ci_quantity = quantity\<rparr>]"
    by (simp add: addToCart_def)
next
  assume "distinct (lineIds cart)"
  then show "distinct (lineIds (addToCart product quantity cart))" by (rule distinct_addToCart)
next
  show "distinct (lineIds (addAll adds))"
    unfolding addAll_def by (rule distinct_foldl_addToCart) (simp add: lineIds_def)
qed

theorem addToCart_one_line_per_product_witness:
  "find (\<lambda>item. p_id (ci_product item) = p_id (mkProduct ''p1'' ''Latte'' 4))
     (addToCart (mkProduct ''p1'' ''Latte'' 4) 3
        [mkLine (mkProduct ''p1'' ''Latte'' 4) 1, mkLine (mkProduct ''p2'' ''Muffin'' 3) 2])
     = Some (mkLine (mkProduct ''p1'' ''Latte'' 4) 4) \<and>
   addToCart (mkProduct ''p3'' ''Croissant'' 5) 1
        [mkLine (mkProduct ''p1'' ''Latte'' 4) 1, mkLine (mkProduct ''p2'' ''Muffin'' 3) 2]
     = [mkLine (mkProduct ''p1'' ''Latte'' 4) 1, mkLine (mkProduct ''p2'' ''Muffin'' 3) 2,
        mkLine (mkProduct ''p3'' ''Croissant'' 5) 1] \<and>
   distinct (lineIds (addToCart (mkProduct ''p1'' ''Latte'' 4) 3
        [mkLine (mkProduct ''p1'' ''Latte'' 4) 1, mkLine (mkProduct ''p2'' ''Muffin'' 3) 2]))"
proof -
  let ?cart = "[mkLine (mkProduct ''p1'' ''Latte'' 4) 1, mkLine (mkProduct ''p2'' ''Muffin'' 3) 2]"
  have f: "find (\<lambda>item. p_id (ci_product item) = p_id (mkProduct ''p1'' ''Latte'' 4)) ?cart
             = Some (mkLine (mkProduct ''p1'' ''Latte'' 4) 1)"
    by (simp add: mkLine_def mkProduct_def)
  have n: "p_id (mkProduct ''p3'' ''Croissant'' 5) \<notin> set (lineIds ?cart)"
    by (simp add: mkLine_def mkProduct_def lineIds_def)
  have d: "distinct (lineIds ?cart)"
    by (simp add: mkLine_def mkProduct_def lineIds_def)
  have q: "(mkLine (mkProduct ''p1'' ''Latte'' 4) 1)\<lparr>ci_quantity :=
             ci_quantity (mkLine (mkProduct ''p1'' ''Latte'' 4) 1) + 3\<rparr>
           = mkLine (mkProduct ''p1'' ''Latte'' 4) 4"
    by (simp add: mkLine_def)
  from addToCart_one_line_per_product [of "mkProduct ''p1'' ''Latte'' 4" ?cart 3 "[]"] f d q
    addToCart_one_line_per_product [of "mkProduct ''p3'' ''Croissant'' 5" ?cart 1 "[]"] n
  show ?thesis by (simp add: mkLine_def)
qed

text \<open>
  C10: \<open>updateQuantity\<close> with a quantity at most zero removes every line of that product
  and nothing else. With a positive quantity it replaces the quantity of the lines of that
  product and leaves the other lines unchanged. It never writes a quantity that is zero or
  negative.
\<close>

theorem updateQuantity_spec:
  "(quantity \<le> 0 \<longrightarrow>
      updateQuantity productId quantity cart
        = filter (\<lambda>item. p_id (ci_product item) \<noteq> productId) cart \<and>
      productId \<notin> set (lineIds (updateQuantity productId quantity cart))) \<and>
   (quantity > 0 \<longrightarrow>
      length (updateQuantity productId quantity cart) = length cart \<and>
      (\<forall>i<length cart.
         updateQuantity productId quantity cart ! i =
           (if p_id (ci_product (cart ! i)) = productId
            then (cart ! i)\<lparr>ci_quantity := quantity\<rparr> else cart ! i))) \<and>
   (\<forall>item\<in>set (updateQuantity productId quantity cart). item \<in> set cart \<or> ci_quantity item > 0)"
  by (auto simp: updateQuantity_def removeFromCart_def lineIds_def)

theorem updateQuantity_spec_witness:
  "updateQuantity ''p1'' 0 [mkLine (mkProduct ''p1'' ''Latte'' 4) 1, mkLine (mkProduct ''p2'' ''Muffin'' 3) 2]
     = [mkLine (mkProduct ''p2'' ''Muffin'' 3) 2] \<and>
   updateQuantity ''p1'' 5 [mkLine (mkProduct ''p1'' ''Latte'' 4) 1, mkLine (mkProduct ''p2'' ''Muffin'' 3) 2] ! 0
     = mkLine (mkProduct ''p1'' ''Latte'' 4) 5 \<and>
   updateQuantity ''p1'' 5 [mkLine (mkProduct ''p1'' ''Latte'' 4) 1, mkLine (mkProduct ''p2'' ''Muffin'' 3) 2] ! 1
     = mkLine (mkProduct ''p2'' ''Muffin'' 3) 2"
proof -
  let ?cart = "[mkLine (mkProduct ''p1'' ''Latte'' 4) 1, mkLine (mkProduct ''p2'' ''Muffin'' 3) 2]"
  have z: "(0::rat) \<le> 0" and p: "(5::rat) > 0" by simp_all
  from updateQuantity_spec [of 0 "''p1''" ?cart] z
  have a: "updateQuantity ''p1'' 0 ?cart = [mkLine (mkProduct ''p2'' ''Muffin'' 3) 2]"
    by (simp add: mkLine_def mkProduct_def)
  from updateQuantity_spec [of 5 "''p1''" ?cart] p
  have b: "\<forall>i<length ?cart. updateQuantity ''p1'' 5 ?cart ! i =
           (if p_id (ci_product (?cart ! i)) = ''p1''
            then (?cart ! i)\<lparr>ci_quantity := 5\<rparr> else ?cart ! i)"
    by blast
  from b [rule_format, of 0] b [rule_format, of 1] a
  show ?thesis by (simp add: mkLine_def mkProduct_def)
qed

lemma lastOrderHash_processItem [simp]:
  "lastOrderHash (processItem products processedSeen cartSeen st orderItem) = lastOrderHash st"
  by (simp add: processItem_def Let_def split: option.splits)

lemma lastOrderHash_foldl_processItem [simp]:
  "lastOrderHash (foldl (processItem products processedSeen cartSeen) st items) = lastOrderHash st"
  by (induction items arbitrary: st) simp_all

lemma lastOrderHash_processOrdersFromMemory:
  "lastOrderHash (processOrdersFromMemory products processedSeen cartSeen st orderItems)
     = Some (normalizedItems orderItems)"
  by (simp add: processOrdersFromMemory_def Let_def)

text \<open>
  C2: Processing the same order list a second time changes nothing: the hash stored by the
  first call equals the hash of the list, and the second call returns before it touches the
  cart or the set of processed orders, whatever the component has rendered in between.
\<close>

theorem processOrdersFromMemory_idempotent:
  "processOrdersFromMemory products processedSeen' cartSeen'
     (processOrdersFromMemory products processedSeen cartSeen st orderItems) orderItems
   = processOrdersFromMemory products processedSeen cartSeen st orderItems"
proof -
  let ?st' = "processOrdersFromMemory products processedSeen cartSeen st orderItems"
  have "lastOrderHash ?st' = Some (normalizedItems orderItems)"
    by (rule lastOrderHash_processOrdersFromMemory)
  then show ?thesis
    by (simp add: processOrdersFromMemory_def [of products processedSeen' cartSeen' ?st'])
qed


text \<open>
  C4: The quantity with which an extracted item is added to the cart is 1 when the raw item
  has no quantity (absent or \<open>null\<close>) or a quantity that is zero or negative, and the
  stated quantity when it is positive. \<open>extractOrderFromMemory\<close> supplies the default for
  a missing quantity, \<open>processOrdersFromMemory\<close> the one for a quantity that is not
  positive; the list it hashes and the call of \<open>addToCart\<close> both use this quantity.
\<close>

theorem quantity_defaults_to_one:
  assumes "normalizeItem coerce raw = Some r" and "keepItem r = Some (Some orderItem)"
  shows "(getProp raw ''quantity'' = None \<or> getProp raw ''quantity'' = Some JNull \<longrightarrow>
            validQuantity (oi_quantity orderItem) = 1) \<and>
         (\<forall>q. getProp raw ''quantity'' = Some (JNum q) \<and> q \<le> 0 \<longrightarrow>
            validQuantity (oi_quantity orderItem) = 1) \<and>
         (\<forall>q. getProp raw ''quantity'' = Some (JNum q) \<and> q > 0 \<longrightarrow>
            validQuantity (oi_quantity orderItem) = q) \<and>
         normalizedItems [orderItem]
           = [orderItem\<lparr>oi_quantity := Num (validQuantity (oi_quantity orderItem))\<rparr>] \<and>
         (\<forall>product. matchOrderItemToProduct orderItem products = Some product \<longrightarrow>
            processItem products {} [] st orderItem =
              st\<lparr>cartItems := addToCart product (validQuantity (oi_quantity orderItem)) (cartItems st),
                 processedOrders :=
                   insert (p_id product, validQuantity (oi_quantity orderItem)) (processedOrders st)\<rparr>)"
proof -
  from assms(2) have "oi_quantity orderItem = r_quantity r"
    by (auto simp: keepItem_def split: if_splits json.splits)
  moreover from assms(1) have "r_quantity r =
      (case getProp raw ''quantity'' of None \<Rightarrow> Num 1 | Some JNull \<Rightarrow> Num 1
       | Some q \<Rightarrow> toNumber coerce q)"
    by (auto simp: normalizeItem_def split: if_splits)
  ultimately have "oi_quantity orderItem =
      (case getProp raw ''quantity'' of None \<Rightarrow> Num 1 | Some JNull \<Rightarrow> Num 1
       | Some q \<Rightarrow> toNumber coerce q)" by simp
  then show ?thesis
    by (auto simp: processItem_def Let_def normalizedItems_def)
qed

theorem quantity_defaults_to_one_witness:
  "validQuantity (oi_quantity \<lparr>oi_item = ''Latte'', oi_price = JNum 0, oi_quantity = Num (- 2)\<rparr>) = 1 \<and>
   validQuantity (oi_quantity \<lparr>oi_item = ''Latte'', oi_price = JNum 0, oi_quantity = Num 3\<rparr>) = 3 \<and>
   validQuantity (oi_quantity \<lparr>oi_item = ''Latte'', oi_price = JNum 0, oi_quantity = Num 1\<rparr>) = 1 \<and>
   normalizeItem (\<lambda>v. NaN) (JObj [(''item'', JStr ''Latte''), (''quantity'', JNum (- 2))])
     = Some \<lparr>r_item = JStr ''Latte'', r_price = JNum 0, r_quantity = Num (- 2)\<rparr> \<and>
   normalizeItem (\<lambda>v. NaN) (JObj [(''item'', JStr ''Latte'')])
     = Some \<lparr>r_item = JStr ''Latte'', r_price = JNum 0, r_quantity = Num 1\<rparr>"
proof -
  let ?neg = "JObj [(''item'', JStr ''Latte''), (''quantity'', JNum (- 2))]"
  let ?pos = "JObj [(''item'', JStr ''Latte''), (''quantity'', JNum 3)]"
  let ?none = "JObj [(''item'', JStr ''Latte'')]"
  have n1: "normalizeItem (\<lambda>v. NaN) ?neg
              = Some \<lparr>r_item = JStr ''Latte'', r_price = JNum 0, r_quantity = Num (- 2)\<rparr>"
    by code_simp
  have n2: "normalizeItem (\<lambda>v. NaN) ?pos
              = Some \<lparr>r_item = JStr ''Latte'', r_price = JNum 0, r_quantity = Num 3\<rparr>"
    by code_simp
  have n3: "normalizeItem (\<lambda>v. NaN) ?none
              = Some \<lparr>r_item = JStr ''Latte'', r_price = JNum 0, r_quantity = Num 1\<rparr>"
    by code_simp
  have k1: "keepItem \<lparr>r_item = JStr ''Latte'', r_price = JNum 0, r_quantity = Num (- 2)\<rparr>
              = Some (Some \<lparr>oi_item = ''Latte'', oi_price = JNum 0, oi_quantity = Num (- 2)\<rparr>)"
    by code_simp
  have k2: "keepItem \<lparr>r_item = JStr ''Latte'', r_price = JNum 0, r_quantity = Num 3\<rparr>
              = Some (Some \<lparr>oi_item = ''Latte'', oi_price = JNum 0, oi_quantity = Num 3\<rparr>)"
    by code_simp
  have k3: "keepItem \<lparr>r_item = JStr ''Latte'', r_price = JNum 0, r_quantity = Num 1\<rparr>
              = Some (Some \<lparr>oi_item = ''Latte'', oi_price = JNum 0, oi_quantity = Num 1\<rparr>)"
    by code_simp
  have g1: "getProp ?neg ''quantity'' = Some (JNum (- 2))" by simp
  have g2: "getProp ?pos ''quantity'' = Some (JNum 3)" by simp
  have g3: "getProp ?none ''quantity'' = None" by simp
  from quantity_defaults_to_one [OF n1 k1, of "[]" initialOrderState] g1
  have a: "validQuantity (oi_quantity \<lparr>oi_item = ''Latte'', oi_price = JNum 0, oi_quantity = Num (- 2)\<rparr>) = 1"
    by simp
  from quantity_defaults_to_one [OF n2 k2, of "[]" initialOrderState] g2
  have b: "validQuantity (oi_quantity \<lparr>oi_item = ''Latte'', oi_price = JNum 0, oi_quantity = Num 3\<rparr>) = 3"
    by simp
  from quantity_defaults_to_one [OF n3 k3, of "[]" initialOrderState] g3
  have c: "validQuantity (oi_quantity \<lparr>oi_item = ''Latte'', oi_price = JNum 0, oi_quantity = Num 1\<rparr>) = 1"
    by simp
  from a b c n1 n3 show ?thesis by simp
qed

section \<open>Properties of the matcher\<close>

text \<open>
  C1, as stated, fails: the matcher takes the first product that a tier finds and does not
  count the candidates. With the catalogue \<open>Iced Coffee\<close>, \<open>Hot Coffee\<close> the mention
  \<open>coffee\<close> has no exact match and two substring matches; \<open>Iced Coffee\<close> is selected
  and a line for it is added to the cart.
\<close>

theorem matchOrderItemToProduct_ambiguous_counterexample:
  "length (filter (exactMatch (trim (toLowerCase ''coffee'')))
     [mkProduct ''p1'' ''Iced Coffee'' 4, mkProduct ''p2'' ''Hot Coffee'' 3]) = 0 \<and>
   length (filter (partialMatch (trim (toLowerCase ''coffee'')))
     [mkProduct ''p1'' ''Iced Coffee'' 4, mkProduct ''p2'' ''Hot Coffee'' 3]) = 2 \<and>
   matchOrderItemToProduct \<lparr>oi_item = ''coffee'', oi_price = JNum 0, oi_quantity = Num 1\<rparr>
     [mkProduct ''p1'' ''Iced Coffee'' 4, mkProduct ''p2'' ''Hot Coffee'' 3]
     = Some (mkProduct ''p1'' ''Iced Coffee'' 4) \<and>
   cartItems (processOrdersFromMemory
       [mkProduct ''p1'' ''Iced Coffee'' 4, mkProduct ''p2'' ''Hot Coffee'' 3] {} [] initialOrderState
       [\<lparr>oi_item = ''coffee'', oi_price = JNum 0, oi_quantity = Num 1\<rparr>])
     = [mkLine (mkProduct ''p1'' ''Iced Coffee'' 4) 1]"
  by code_simp

lemma find_None_set: "find P xs = None \<longleftrightarrow> (\<forall>x\<in>set xs. \<not> P x)"
  by (auto simp: find_None_iff)

lemma find_Some_first:
  "find P xs = Some m \<Longrightarrow> \<exists>i<length xs. xs ! i = m \<and> P m \<and> (\<forall>j<i. \<not> P (xs ! j))"
  by (auto simp: find_Some_iff)

lemma match_None_iff:
  "matchOrderItemToProduct orderItem products = None \<longleftrightarrow>
     (\<forall>p\<in>set products.
        \<not> exactMatch (trim (toLowerCase (oi_item orderItem))) p \<and>
        \<not> partialMatch (trim (toLowerCase (oi_item orderItem))) p \<and>
        \<not> wordMatch (trim (toLowerCase (oi_item orderItem))) p)"
proof -
  let ?n = "trim (toLowerCase (oi_item orderItem))"
  have "matchOrderItemToProduct orderItem products = None \<longleftrightarrow>
      find (exactMatch ?n) products = None \<and> find (partialMatch ?n) products = None \<and>
      find (wordMatch ?n) products = None"
    by (simp add: matchOrderItemToProduct_def Let_def split: option.splits)
  then show ?thesis by (simp only: find_None_set) blast
qed

lemma match_Some_first:
  assumes "matchOrderItemToProduct orderItem products = Some m"
  shows "\<exists>i<length products. products ! i = m \<and>
     (if \<exists>p\<in>set products. exactMatch (trim (toLowerCase (oi_item orderItem))) p
      then exactMatch (trim (toLowerCase (oi_item orderItem))) m \<and>
           (\<forall>j<i. \<not> exactMatch (trim (toLowerCase (oi_item orderItem))) (products ! j))
      else if \<exists>p\<in>set products. partialMatch (trim (toLowerCase (oi_item orderItem))) p
      then partialMatch (trim (toLowerCase (oi_item orderItem))) m \<and>
           (\<forall>j<i. \<not> partialMatch (trim (toLowerCase (oi_item orderItem))) (products ! j))
      else wordMatch (trim (toLowerCase (oi_item orderItem))) m \<and>
           (\<forall>j<i. \<not> wordMatch (trim (toLowerCase (oi_item orderItem))) (products ! j)))"
proof -
  let ?n = "trim (toLowerCase (oi_item orderItem))"
  show ?thesis
  proof (cases "find (exactMatch ?n) products")
    case (Some e)
    with assms have "e = m" by (simp add: matchOrderItemToProduct_def Let_def)
    moreover from Some have "\<exists>p\<in>set products. exactMatch ?n p"
      using find_None_set [of "exactMatch ?n" products] by auto
    ultimately show ?thesis using find_Some_first [OF Some] by auto
  next
    case None
    then have noexact: "\<not> (\<exists>p\<in>set products. exactMatch ?n p)" by (simp add: find_None_set)
    show ?thesis
    proof (cases "find (partialMatch ?n) products")
      case (Some e)
      with None assms have "e = m" by (simp add: matchOrderItemToProduct_def Let_def)
      moreover from Some have "\<exists>p\<in>set products. partialMatch ?n p"
        using find_None_set [of "partialMatch ?n" products] by auto
      ultimately show ?thesis using find_Some_first [OF Some] noexact by auto
    next
      case None2: None
      then have nopartial: "\<not> (\<exists>p\<in>set products. partialMatch ?n p)" by (simp add: find_None_set)
      from None None2 assms have "find (wordMatch ?n) products = Some m"
        by (simp add: matchOrderItemToProduct_def Let_def)
      from find_Some_first [OF this] noexact nopartial show ?thesis by auto
    qed
  qed
qed

lemma set_lineIds_addToCart:
  "set (lineIds (addToCart product quantity cart)) = insert (p_id product) (set (lineIds cart))"
proof (cases "find (\<lambda>item. p_id (ci_product item) = p_id product) cart")
  case None
  then show ?thesis by (simp add: lineIds_addToCart_new)
next
  case (Some existing)
  then have "p_id product \<in> set (lineIds cart)"
    using find_None_lineIds [of "p_id product" cart] by auto
  with Some show ?thesis by (auto simp: lineIds_addToCart_existing)
qed

lemma processItem_ids:
  "set (lineIds (cartItems (processItem products processedSeen cartSeen st orderItem)))
     \<subseteq> set (lineIds (cartItems st)) \<union> matchedIds products [orderItem]"
  by (auto simp: processItem_def Let_def matchedIds_def set_lineIds_addToCart split: option.splits)

lemma matchedIds_mono: "set xs \<subseteq> set ys \<Longrightarrow> matchedIds products xs \<subseteq> matchedIds products ys"
  by (auto simp: matchedIds_def)

lemma foldl_processItem_ids:
  "set (lineIds (cartItems (foldl (processItem products processedSeen cartSeen) st items)))
     \<subseteq> set (lineIds (cartItems st)) \<union> matchedIds products items"
proof (induction items arbitrary: st)
  case Nil
  then show ?case by simp
next
  case (Cons x xs)
  have "set (lineIds (cartItems (foldl (processItem products processedSeen cartSeen)
           (processItem products processedSeen cartSeen st x) xs)))
        \<subseteq> set (lineIds (cartItems (processItem products processedSeen cartSeen st x)))
            \<union> matchedIds products xs"
    by (rule Cons.IH)
  moreover have "matchedIds products [x] \<subseteq> matchedIds products (x # xs)"
    and "matchedIds products xs \<subseteq> matchedIds products (x # xs)"
    by (auto intro!: matchedIds_mono)
  ultimately show ?case using processItem_ids [of products processedSeen cartSeen st x]
    by auto
qed

lemma processOrders_ids:
  "set (lineIds (cartItems (processOrdersFromMemory products processedSeen cartSeen st orderItems)))
     \<subseteq> set (lineIds (cartItems st)) \<union> matchedIds products orderItems"
proof -
  have "matchedIds products (newItemsOf (lastOrderHash st) orderItems) \<subseteq> matchedIds products orderItems"
    by (rule matchedIds_mono) (auto simp: newItemsOf_def Let_def)
  then show ?thesis
    using foldl_processItem_ids [of products processedSeen cartSeen
            "st\<lparr>lastOrderHash := Some (normalizedItems orderItems)\<rparr>"
            "newItemsOf (lastOrderHash st) orderItems"]
    by (auto simp: processOrdersFromMemory_def Let_def)
qed

lemma foldl_processItem_unmatched:
  "\<forall>orderItem\<in>set items. matchOrderItemToProduct orderItem products = None \<Longrightarrow>
   foldl (processItem products processedSeen cartSeen) st items = st"
  by (induction items arbitrary: st) (simp_all add: processItem_def)

lemma processOrders_unmatched:
  assumes "\<forall>orderItem\<in>set orderItems. matchOrderItemToProduct orderItem products = None"
  shows "cartItems (processOrdersFromMemory products processedSeen cartSeen st orderItems) = cartItems st"
proof -
  from assms have "\<forall>orderItem\<in>set (newItemsOf (lastOrderHash st) orderItems).
      matchOrderItemToProduct orderItem products = None"
    by (auto simp: newItemsOf_def Let_def)
  then show ?thesis
    by (simp add: processOrdersFromMemory_def Let_def foldl_processItem_unmatched)
qed

text \<open>
  C1 (amended): the tiers are tried in order: equality with the lowercased product
  name, substring containment in either direction, containment between some word of the
  mention and some word of the product name. The product selected is the first one, in
  catalogue order, that satisfies the first tier with any candidate, also when several
  products satisfy it. No product is selected exactly when no product satisfies any tier.
  Every line that \<open>processOrdersFromMemory\<close> adds is for a product the matcher selected,
  and when no item of the order list is matched the cart is unchanged.
\<close>

theorem matchOrderItemToProduct_first_candidate:
  "(matchOrderItemToProduct orderItem products = None \<longleftrightarrow>
     (\<forall>p\<in>set products.
        \<not> exactMatch (trim (toLowerCase (oi_item orderItem))) p \<and>
        \<not> partialMatch (trim (toLowerCase (oi_item orderItem))) p \<and>
        \<not> wordMatch (trim (toLowerCase (oi_item orderItem))) p)) \<and>
   (\<forall>m. matchOrderItemToProduct orderItem products = Some m \<longrightarrow>
     (\<exists>i<length products. products ! i = m \<and>
       (if \<exists>p\<in>set products. exactMatch (trim (toLowerCase (oi_item orderItem))) p
        then exactMatch (trim (toLowerCase (oi_item orderItem))) m \<and>
             (\<forall>j<i. \<not> exactMatch (trim (toLowerCase (oi_item orderItem))) (products ! j))
        else if \<exists>p\<in>set products. partialMatch (trim (toLowerCase (oi_item orderItem))) p
        then partialMatch (trim (toLowerCase (oi_item orderItem))) m \<and>
             (\<forall>j<i. \<not> partialMatch (trim (toLowerCase (oi_item orderItem))) (products ! j))
        else wordMatch (trim (toLowerCase (oi_item orderItem))) m \<and>
             (\<forall>j<i. \<not> wordMatch (trim (toLowerCase (oi_item orderItem))) (products ! j))))) \<and>
   set (lineIds (cartItems (processOrdersFromMemory products processedSeen cartSeen st orderItems)))
     \<subseteq> set (lineIds (cartItems st)) \<union> matchedIds products orderItems \<and>
   ((\<forall>orderItem\<in>set orderItems. matchOrderItemToProduct orderItem products = None) \<longrightarrow>
      cartItems (processOrdersFromMemory products processedSeen cartSeen st orderItems) = cartItems st)"
  using match_None_iff [of orderItem products] match_Some_first [of orderItem products]
    processOrders_ids [of products processedSeen cartSeen st orderItems]
    processOrders_unmatched [of orderItems products processedSeen cartSeen st]
  by blast

theorem matchOrderItemToProduct_first_candidate_witness:
  "matchOrderItemToProduct \<lparr>oi_item = ''unicorn'', oi_price = JNum 0, oi_quantity = Num 1\<rparr>
     [mkProduct ''p1'' ''Iced Coffee'' 4, mkProduct ''p2'' ''Latte'' 3] = None \<and>
   cartItems (processOrdersFromMemory [mkProduct ''p1'' ''Iced Coffee'' 4, mkProduct ''p2'' ''Latte'' 3]
       {} [] initialOrderState [\<lparr>oi_item = ''unicorn'', oi_price = JNum 0, oi_quantity = Num 1\<rparr>]) = [] \<and>
   exactMatch (trim (toLowerCase '' LATTE '')) (mkProduct ''p2'' ''Latte'' 3) \<and>
   matchOrderItemToProduct \<lparr>oi_item = '' LATTE '', oi_price = JNum 0, oi_quantity = Num 1\<rparr>
     [mkProduct ''p1'' ''Iced Coffee'' 4, mkProduct ''p2'' ''Latte'' 3]
     = Some (mkProduct ''p2'' ''Latte'' 3)"
proof -
  let ?products = "[mkProduct ''p1'' ''Iced Coffee'' 4, mkProduct ''p2'' ''Latte'' 3]"
  let ?unicorn = "\<lparr>oi_item = ''unicorn'', oi_price = JNum 0, oi_quantity = Num 1\<rparr>"
  let ?latte = "\<lparr>oi_item = '' LATTE '', oi_price = JNum 0, oi_quantity = Num 1\<rparr>"
  have none: "\<forall>p\<in>set ?products.
        \<not> exactMatch (trim (toLowerCase (oi_item ?unicorn))) p \<and>
        \<not> partialMatch (trim (toLowerCase (oi_item ?unicorn))) p \<and>
        \<not> wordMatch (trim (toLowerCase (oi_item ?unicorn))) p"
    by code_simp
  from matchOrderItemToProduct_first_candidate
         [of ?unicorn ?products "{}" "[]" initialOrderState "[?unicorn]"] none
  have a: "matchOrderItemToProduct ?unicorn ?products = None" by blast
  with matchOrderItemToProduct_first_candidate
         [of ?unicorn ?products "{}" "[]" initialOrderState "[?unicorn]"]
  have b: "cartItems (processOrdersFromMemory ?products {} [] initialOrderState [?unicorn])
             = cartItems initialOrderState" by simp
  have c: "matchOrderItemToProduct ?latte ?products = Some (mkProduct ''p2'' ''Latte'' 3)"
    by code_simp
  have e: "\<exists>p\<in>set ?products. exactMatch (trim (toLowerCase (oi_item ?latte))) p"
    by code_simp
  from matchOrderItemToProduct_first_candidate
         [of ?latte ?products "{}" "[]" initialOrderState "[]"] c e
  have d: "exactMatch (trim (toLowerCase (oi_item ?latte))) (mkProduct ''p2'' ''Latte'' 3)"
    by auto
  from a b c d show ?thesis by (simp add: initialOrderState_def)
qed

section \<open>Properties of polling\<close>

lemma pollLoop_bounded:
  "attempt \<le> maxAttempts \<Longrightarrow>
   snd (pollLoop get statusUrl maxAttempts pollInterval attempt) \<le> maxAttempts"
proof (induction get statusUrl maxAttempts pollInterval attempt rule: pollLoop.induct)
  case (1 get statusUrl maxAttempts pollInterval attempt)
  show ?case
  proof (cases "attempt < maxAttempts")
    case False
    with "1.prems" show ?thesis by (subst pollLoop.simps) simp
  next
    case True
    show ?thesis
    proof (cases "get statusUrl attempt")
      case (Response statusData)
      with True "1.IH"(1) [OF True Response] show ?thesis
        by (subst pollLoop.simps) (auto simp: Suc_le_eq)
    next
      case (Failure status)
      with True "1.IH"(2) [OF True Failure] show ?thesis
        by (subst pollLoop.simps) (auto simp: Suc_le_eq)
    qed
  qed
qed

lemma pollLoop_skip_pending:
  "attempt \<le> k \<Longrightarrow> k \<le> maxAttempts \<Longrightarrow> \<forall>j. attempt \<le> j \<and> j < k \<longrightarrow> pending (get statusUrl j) \<Longrightarrow>
   pollLoop get statusUrl maxAttempts pollInterval attempt
     = pollLoop get statusUrl maxAttempts pollInterval k"
proof (induction "k - attempt" arbitrary: attempt)
  case 0
  then show ?case by simp
next
  case (Suc n)
  then have lt: "attempt < k" and p: "pending (get statusUrl attempt)" by auto
  have "pollLoop get statusUrl maxAttempts pollInterval attempt
          = pollLoop get statusUrl maxAttempts pollInterval (Suc attempt)"
    using lt Suc.prems(2) p
    by (subst pollLoop.simps) (auto split: getResult.splits)
  also have "\<dots> = pollLoop get statusUrl maxAttempts pollInterval k"
    using Suc lt by (intro Suc.hyps(1)) auto
  finally show ?case .
qed

lemma pollLoop_result_completed:
  "fst (pollLoop get statusUrl maxAttempts pollInterval attempt) = Inr d \<Longrightarrow>
   \<exists>k<maxAttempts. get statusUrl k = Response d \<and> getProp d ''status'' = Some (JStr ''COMPLETED'')"
proof (induction get statusUrl maxAttempts pollInterval attempt rule: pollLoop.induct)
  case (1 get statusUrl maxAttempts pollInterval attempt)
  show ?case
  proof (cases "attempt < maxAttempts")
    case False
    with "1.prems" show ?thesis by (subst (asm) pollLoop.simps) simp
  next
    case True
    show ?thesis
    proof (cases "get statusUrl attempt")
      case (Response statusData)
      with True "1.IH"(1) [OF True Response] "1.prems" show ?thesis
        by (subst (asm) pollLoop.simps) (auto split: if_splits)
    next
      case (Failure status)
      with True "1.IH"(2) [OF True Failure] "1.prems" show ?thesis
        by (subst (asm) pollLoop.simps) (auto split: if_splits)
    qed
  qed
qed

text \<open>
  C8: \<open>pollJobStatus\<close> makes at most \<open>maxAttempts\<close> requests. If the status URL cannot be
  built it fails without a request. The first response with status \<open>COMPLETED\<close> is
  returned, the first with status \<open>FAILED\<close> raises an error at once, and when every
  attempt leaves the job pending the call fails with a timeout error after \<open>maxAttempts\<close>
  requests. A returned value is always the data of a \<open>COMPLETED\<close> response.
\<close>

theorem pollJobStatus_bounded:
  "snd (pollJobStatus API_URL urlPathname get jobId maxAttempts pollInterval) \<le> maxAttempts \<and>
   (\<forall>e. statusUrlOf API_URL urlPathname jobId = Inl e \<longrightarrow>
      pollJobStatus API_URL urlPathname get jobId maxAttempts pollInterval = (Inl e, 0)) \<and>
   (\<forall>statusUrl. statusUrlOf API_URL urlPathname jobId = Inr statusUrl \<longrightarrow>
      (\<forall>k statusData. k < maxAttempts \<and> (\<forall>j<k. pending (get statusUrl j)) \<and>
          get statusUrl k = Response statusData \<and>
          getProp statusData ''status'' = Some (JStr ''COMPLETED'') \<longrightarrow>
          pollJobStatus API_URL urlPathname get jobId maxAttempts pollInterval
            = (Inr statusData, Suc k)) \<and>
      (\<forall>k statusData. k < maxAttempts \<and> (\<forall>j<k. pending (get statusUrl j)) \<and>
          get statusUrl k = Response statusData \<and>
          getProp statusData ''status'' = Some (JStr ''FAILED'') \<longrightarrow>
          pollJobStatus API_URL urlPathname get jobId maxAttempts pollInterval
            = (Inl (JobFailed (orElse (getProp statusData ''error'') (JStr ''Unknown error''))), Suc k)) \<and>
      ((\<forall>j<maxAttempts. pending (get statusUrl j)) \<longrightarrow>
          pollJobStatus API_URL urlPathname get jobId maxAttempts pollInterval
            = (Inl (JobTimeout (of_nat maxAttempts * pollInterval / 1000)), maxAttempts)) \<and>
      (\<forall>statusData. fst (pollJobStatus API_URL urlPathname get jobId maxAttempts pollInterval)
            = Inr statusData \<longrightarrow>
          (\<exists>k<maxAttempts. get statusUrl k = Response statusData \<and>
             getProp statusData ''status'' = Some (JStr ''COMPLETED''))))"
proof -
  let ?poll = "pollJobStatus API_URL urlPathname get jobId maxAttempts pollInterval"
  have bound: "snd ?poll \<le> maxAttempts"
    by (cases "statusUrlOf API_URL urlPathname jobId")
       (simp_all add: pollJobStatus_def pollLoop_bounded)
  have err: "?poll = (Inl e, 0)" if "statusUrlOf API_URL urlPathname jobId = Inl e" for e
    using that by (simp add: pollJobStatus_def)
  have completed: "?poll = (Inr statusData, Suc k)"
    if "statusUrlOf API_URL urlPathname jobId = Inr statusUrl"
      and "k < maxAttempts \<and> (\<forall>j<k. pending (get statusUrl j)) \<and>
          get statusUrl k = Response statusData \<and>
          getProp statusData ''status'' = Some (JStr ''COMPLETED'')"
    for statusUrl k statusData
  proof -
    from that(2) have "pollLoop get statusUrl maxAttempts pollInterval 0
        = pollLoop get statusUrl maxAttempts pollInterval k"
      by (intro pollLoop_skip_pending) auto
    also from that(2) have "\<dots> = (Inr statusData, Suc k)"
      by (subst pollLoop.simps) auto
    finally show ?thesis using that(1) by (simp add: pollJobStatus_def)
  qed
  have failed: "?poll = (Inl (JobFailed (orElse (getProp statusData ''error'') (JStr ''Unknown error''))), Suc k)"
    if "statusUrlOf API_URL urlPathname jobId = Inr statusUrl"
      and "k < maxAttempts \<and> (\<forall>j<k. pending (get statusUrl j)) \<and>
          get statusUrl k = Response statusData \<and>
          getProp statusData ''status'' = Some (JStr ''FAILED'')"
    for statusUrl k statusData
  proof -
    from that(2) have "pollLoop get statusUrl maxAttempts pollInterval 0
        = pollLoop get statusUrl maxAttempts pollInterval k"
      by (intro pollLoop_skip_pending) auto
    also from that(2) have "\<dots> =
        (Inl (JobFailed (orElse (getProp statusData ''error'') (JStr ''Unknown error''))), Suc k)"
      by (subst pollLoop.simps) auto
    finally show ?thesis using that(1) by (simp add: pollJobStatus_def)
  qed
  have timeout: "?poll = (Inl (JobTimeout (of_nat maxAttempts * pollInterval / 1000)), maxAttempts)"
    if "statusUrlOf API_URL urlPathname jobId = Inr statusUrl"
      and "\<forall>j<maxAttempts. pending (get statusUrl j)"
    for statusUrl
  proof -
    from that(2) have "pollLoop get statusUrl maxAttempts pollInterval 0
        = pollLoop get statusUrl maxAttempts pollInterval maxAttempts"
      by (intro pollLoop_skip_pending) auto
    also have "\<dots> = (Inl (JobTimeout (of_nat maxAttempts * pollInterval / 1000)), maxAttempts)"
      by (subst pollLoop.simps) simp
    finally show ?thesis using that(1) by (simp add: pollJobStatus_def)
  qed
  have whole: "\<exists>k<maxAttempts. get statusUrl k = Response statusData \<and>
             getProp statusData ''status'' = Some (JStr ''COMPLETED'')"
    if "statusUrlOf API_URL urlPathname jobId = Inr statusUrl"
      and "fst ?poll = Inr statusData"
    for statusUrl statusData
    using that pollLoop_result_completed [of get statusUrl maxAttempts pollInterval 0 statusData]
    by (simp add: pollJobStatus_def)
  from bound err completed failed timeout whole show ?thesis by blast
qed

theorem pollJobStatus_bounded_witness:
  "pollJobStatus ''/api/runpod/v2/abc123/runsync'' (\<lambda>u. None)
     (\<lambda>url k. if k < 2 then exStatus ''IN_PROGRESS'' else exStatus ''COMPLETED'')
     ''job-1'' defaultMaxAttempts defaultPollInterval
     = (Inr (JObj [(''status'', JStr ''COMPLETED'')]), 3) \<and>
   pollJobStatus ''/api/runpod/v2/abc123/runsync'' (\<lambda>u. None)
     (\<lambda>url k. if k < 1 then Failure (Some 404) else exStatus ''FAILED'')
     ''job-1'' defaultMaxAttempts defaultPollInterval
     = (Inl (JobFailed (JStr ''Unknown error'')), 2) \<and>
   pollJobStatus ''/api/runpod/v2/abc123/runsync'' (\<lambda>u. None)
     (\<lambda>url k. exStatus ''IN_QUEUE'')
     ''job-1'' defaultMaxAttempts defaultPollInterval
     = (Inl (JobTimeout 300), 150) \<and>
   pollJobStatus ''/api/runpod/runsync'' (\<lambda>u. None)
     (\<lambda>url k. exStatus ''COMPLETED'')
     ''job-1'' defaultMaxAttempts defaultPollInterval
     = (Inl NoEndpointId, 0)"
proof -
  let ?get1 = "\<lambda>(url::string) k::nat. if k < 2 then exStatus ''IN_PROGRESS'' else exStatus ''COMPLETED''"
  let ?get2 = "\<lambda>(url::string) k::nat. if k < 1 then Failure (Some 404) else exStatus ''FAILED''"
  let ?get3 = "\<lambda>(url::string) k::nat. exStatus ''IN_QUEUE''"
  let ?get4 = "\<lambda>(url::string) k::nat. exStatus ''COMPLETED''"
  have u: "statusUrlOf ''/api/runpod/v2/abc123/runsync'' (\<lambda>u. None) ''job-1''
             = Inr ''/api/runpod/v2/abc123/status/job-1''"
    by code_simp
  have u4: "statusUrlOf ''/api/runpod/runsync'' (\<lambda>u. None) ''job-1'' = Inl NoEndpointId"
    by code_simp
  have h1: "(2::nat) < defaultMaxAttempts \<and>
            (\<forall>j<2. pending (?get1 ''/api/runpod/v2/abc123/status/job-1'' j)) \<and>
            ?get1 ''/api/runpod/v2/abc123/status/job-1'' 2 = Response (JObj [(''status'', JStr ''COMPLETED'')]) \<and>
            getProp (JObj [(''status'', JStr ''COMPLETED'')]) ''status'' = Some (JStr ''COMPLETED'')"
    by (simp add: defaultMaxAttempts_def exStatus_def)
  have h2: "(1::nat) < defaultMaxAttempts \<and>
            (\<forall>j<1. pending (?get2 ''/api/runpod/v2/abc123/status/job-1'' j)) \<and>
            ?get2 ''/api/runpod/v2/abc123/status/job-1'' 1 = Response (JObj [(''status'', JStr ''FAILED'')]) \<and>
            getProp (JObj [(''status'', JStr ''FAILED'')]) ''status'' = Some (JStr ''FAILED'')"
    by (simp add: defaultMaxAttempts_def exStatus_def)
  have h3: "\<forall>j<defaultMaxAttempts. pending (?get3 ''/api/runpod/v2/abc123/status/job-1'' j)"
    by (simp add: exStatus_def)
  have t: "of_nat defaultMaxAttempts * defaultPollInterval / 1000 = (300::rat)"
    by (simp add: defaultMaxAttempts_def defaultPollInterval_def)
  have e: "orElse (getProp (JObj [(''status'', JStr ''FAILED'')]) ''error'') (JStr ''Unknown error'')
             = JStr ''Unknown error''"
    by (simp add: orElse_def)
  have m: "defaultMaxAttempts = 150" by (simp add: defaultMaxAttempts_def)
  from pollJobStatus_bounded [of "''/api/runpod/v2/abc123/runsync''" "\<lambda>u. None" ?get1 "''job-1''"
      defaultMaxAttempts defaultPollInterval] u h1
  have a: "pollJobStatus ''/api/runpod/v2/abc123/runsync'' (\<lambda>u. None) ?get1
     ''job-1'' defaultMaxAttempts defaultPollInterval
     = (Inr (JObj [(''status'', JStr ''COMPLETED'')]), Suc 2)"
    by blast
  from pollJobStatus_bounded [of "''/api/runpod/v2/abc123/runsync''" "\<lambda>u. None" ?get2 "''job-1''"
      defaultMaxAttempts defaultPollInterval] u h2
  have b: "pollJobStatus ''/api/runpod/v2/abc123/runsync'' (\<lambda>u. None) ?get2
     ''job-1'' defaultMaxAttempts defaultPollInterval
     = (Inl (JobFailed (orElse (getProp (JObj [(''status'', JStr ''FAILED'')]) ''error'')
          (JStr ''Unknown error''))), Suc 1)"
    by blast
  from pollJobStatus_bounded [of "''/api/runpod/v2/abc123/runsync''" "\<lambda>u. None" ?get3 "''job-1''"
      defaultMaxAttempts defaultPollInterval] u h3
  have c: "pollJobStatus ''/api/runpod/v2/abc123/runsync'' (\<lambda>u. None) ?get3
     ''job-1'' defaultMaxAttempts defaultPollInterval
     = (Inl (JobTimeout (of_nat defaultMaxAttempts * defaultPollInterval / 1000)), defaultMaxAttempts)"
    by blast
  from pollJobStatus_bounded [of "''/api/runpod/runsync''" "\<lambda>u. None" ?get4 "''job-1''"
      defaultMaxAttempts defaultPollInterval] u4
  have d: "pollJobStatus ''/api/runpod/runsync'' (\<lambda>u. None) ?get4
     ''job-1'' defaultMaxAttempts defaultPollInterval = (Inl NoEndpointId, 0)"
    by blast
  from a b c d t e m show ?thesis by simp
qed

section \<open>Properties of the generated replies\<close>




















section \<open>Properties of sending a message\<close>




lemma matchedNames_Nil [simp]: "matchedNames products processedSeen [] = []"
  by (simp add: matchedNames_def map_filter_simps)




end
